theory Spec2Isabelle
  imports Complex_Main
begin

section \<open>Errors and cell values\<close>

text \<open>
  Every exception the modelled code can raise is a value of \<open>error\<close>; a function that can
  raise returns \<open>error + 'a\<close> with \<open>Inl\<close> for the exception. \<open>NotModelled\<close> is no exception of
  Python: a library function returns it on an input whose treatment by the library is left
  out of this model (the text of a float, a date layout other than the two below), and no
  theorem draws a conclusion from it.
\<close>

datatype error =
    KeyError string
  | AttributeError string
  | IndexError
  | TypeError
  | ValueError
  | MergeError
  | HTTPError
  | BadZipFile
  | RuntimeError
  | EmptyDataError
  | NotModelled

definition bind :: "error + 'a \<Rightarrow> ('a \<Rightarrow> error + 'b) \<Rightarrow> error + 'b" where
  "bind m f = (case m of Inl e \<Rightarrow> Inl e | Inr x \<Rightarrow> f x)"

fun sequence :: "(error + 'a) list \<Rightarrow> error + 'a list" where
  "sequence [] = Inr []"
| "sequence (m # ms) = bind m (\<lambda>x. bind (sequence ms) (\<lambda>xs. Inr (x # xs)))"

text \<open>
  A calendar date, and a cell of a table: a float (\<open>Num\<close>), the missing value (pandas'
  NaN, also what a blank spreadsheet cell is read as), text, an integer, or a timestamp
  (date, hour, minute). Floats are the reals and integers are unbounded: the rounding of
  binary floating point and the wrap-around of 64-bit integers are not modelled.
\<close>

record date =
  year :: nat
  month :: nat
  day :: nat

datatype val = Num real | NaN | Str string | Intg int | Stamp date nat nat

text \<open>
  Python's \<open>+\<close> and \<open>-\<close> on two cells. Two numbers give a number (an integer only from
  two integers), a number and a missing value give a missing value, two texts concatenate
  under \<open>+\<close>; every other combination is a \<open>TypeError\<close>. Timestamps take no part in the
  arithmetic of the pipeline and are refused here.
\<close>

fun val_add :: "val \<Rightarrow> val \<Rightarrow> error + val" where
  "val_add (Num a) (Num b) = Inr (Num (a + b))"
| "val_add (Num a) (Intg b) = Inr (Num (a + of_int b))"
| "val_add (Intg a) (Num b) = Inr (Num (of_int a + b))"
| "val_add (Intg a) (Intg b) = Inr (Intg (a + b))"
| "val_add (Str a) (Str b) = Inr (Str (a @ b))"
| "val_add (Str a) _ = Inl TypeError"
| "val_add _ (Str b) = Inl TypeError"
| "val_add (Stamp d h m) _ = Inl TypeError"
| "val_add _ (Stamp d h m) = Inl TypeError"
| "val_add _ _ = Inr NaN"

fun val_sub :: "val \<Rightarrow> val \<Rightarrow> error + val" where
  "val_sub (Num a) (Num b) = Inr (Num (a - b))"
| "val_sub (Num a) (Intg b) = Inr (Num (a - of_int b))"
| "val_sub (Intg a) (Num b) = Inr (Num (of_int a - b))"
| "val_sub (Intg a) (Intg b) = Inr (Intg (a - b))"
| "val_sub (Str a) _ = Inl TypeError"
| "val_sub _ (Str b) = Inl TypeError"
| "val_sub (Stamp d h m) _ = Inl TypeError"
| "val_sub _ (Stamp d h m) = Inl TypeError"
| "val_sub _ _ = Inr NaN"

section \<open>Data frames\<close>

text \<open>
  A data frame is its list of column labels and its rows; a row gives the cell under each
  label. Cells under labels that are not columns of the frame are never read: \<open>getcol\<close>
  raises \<open>KeyError\<close> for them, as \<open>df[label]\<close> does.
\<close>

record 'v frame =
  columns :: "string list"
  rows :: "(string \<Rightarrow> 'v) list"

definition getcol :: "'v frame \<Rightarrow> string \<Rightarrow> error + 'v list" where
  "getcol df c =
     (if c \<in> set (columns df) then Inr (map (\<lambda>r. r c) (rows df)) else Inl (KeyError c))"

text \<open>
  \<open>df[c] = series\<close>: an existing column is overwritten in place, a new one is appended.
  The series is always computed from columns of the same frame, so it has one cell per row.
\<close>

definition setcol :: "'v frame \<Rightarrow> string \<Rightarrow> 'v list \<Rightarrow> 'v frame" where
  "setcol df c vs =
     \<lparr>columns = (if c \<in> set (columns df) then columns df else columns df @ [c]),
      rows = map (\<lambda>(r, v). r(c := v)) (zip (rows df) vs)\<rparr>"

text \<open>\<open>df[c] = scalar\<close>: the scalar is broadcast to every row.\<close>

definition setscalar :: "'v frame \<Rightarrow> string \<Rightarrow> 'v \<Rightarrow> 'v frame" where
  "setscalar df c v = setcol df c (replicate (length (rows df)) v)"

definition series_add :: "val list \<Rightarrow> val list \<Rightarrow> error + val list" where
  "series_add xs ys = sequence (map (\<lambda>(x, y). val_add x y) (zip xs ys))"

definition series_sub :: "val list \<Rightarrow> val list \<Rightarrow> error + val list" where
  "series_sub xs ys = sequence (map (\<lambda>(x, y). val_sub x y) (zip xs ys))"

section \<open>Phase 1: derived metrics\<close>

text \<open>
  Lines 172 to 181 of \<open>eepp_phase_1.py\<close>, one binding per statement: \<open>merged\<close> is the joined
  and renamed table, \<open>eactor_dhhrsr_value\<close> the scalar read from the capacity report.
  Each statement reads two columns (four for the outages), combines them cell by cell and
  stores the result under a new label; the first exception ends the run.
\<close>

definition assign_add :: "val frame \<Rightarrow> string \<Rightarrow> string \<Rightarrow> string \<Rightarrow> error + val frame" where
  \<comment> \<open>\<open>df[c] = df[a] + df[b]\<close>\<close>
  "assign_add df c a b =
     bind (getcol df a) (\<lambda>x. bind (getcol df b) (\<lambda>y.
     bind (series_add x y) (\<lambda>s. Inr (setcol df c s))))"

definition assign_sub :: "val frame \<Rightarrow> string \<Rightarrow> string \<Rightarrow> string \<Rightarrow> error + val frame" where
  \<comment> \<open>\<open>df[c] = df[a] - df[b]\<close>\<close>
  "assign_sub df c a b =
     bind (getcol df a) (\<lambda>x. bind (getcol df b) (\<lambda>y.
     bind (series_sub x y) (\<lambda>s. Inr (setcol df c s))))"

definition assign_sum4 ::
  "val frame \<Rightarrow> string \<Rightarrow> string \<Rightarrow> string \<Rightarrow> string \<Rightarrow> string \<Rightarrow> error + val frame" where
  \<comment> \<open>\<open>df[c] = (df[a1] + df[a2] + df[a3] + df[a4])\<close>, summed from the left\<close>
  "assign_sum4 df c a1 a2 a3 a4 =
     bind (getcol df a1) (\<lambda>x1. bind (getcol df a2) (\<lambda>x2.
     bind (series_add x1 x2) (\<lambda>s12.
     bind (getcol df a3) (\<lambda>x3. bind (series_add s12 x3) (\<lambda>s123.
     bind (getcol df a4) (\<lambda>x4. bind (series_add s123 x4) (\<lambda>s.
     Inr (setcol df c s))))))))"

definition phase1_derive :: "val \<Rightarrow> val frame \<Rightarrow> error + val frame" where
  "phase1_derive eactor_dhhrsr_value merged =
   bind (assign_add merged ''Forecasted Renewables Output''
           ''Forecasted Wind Supply'' ''Forecasted Solar Supply'') (\<lambda>m1.
   bind (assign_sub m1 ''Dispatchable Supply''
           ''Forecasted Demand'' ''Forecasted Renewables Output'') (\<lambda>m2.
   bind (Inr (setscalar m2 ''EACTOR_DHHRSR'' eactor_dhhrsr_value)) (\<lambda>m3.
   bind (assign_sum4 m3 ''total_resource_outages''
           ''TotalResourceMWZoneSouth'' ''TotalResourceMWZoneNorth''
           ''TotalResourceMWZoneWest'' ''TotalResourceMWZoneHouston'') (\<lambda>m4.
   bind (assign_sub m4 ''Forecasted Net Load''
           ''Forecasted Demand'' ''Forecasted Renewables Output'') (\<lambda>m5.
   bind (assign_sub m5 ''Forecasted Net Thermal Capacity''
           ''EACTOR_DHHRSR'' ''total_resource_outages'') (\<lambda>m6.
   assign_sub m6 ''Forecasted Thermal Reserve Margin''
           ''Forecasted Net Thermal Capacity'' ''Forecasted Net Load''))))))"

text \<open>
  The columns that the derivation reads from the joined table, and the reading \<open>num\<close> of a
  numeric cell as a real. \<open>mapcol\<close> and \<open>derive_row\<close> state, row by row, what the column
  statements above compute when these columns hold numbers or missing values; the proofs
  below relate the two.
\<close>

definition phase1_inputs :: "string list" where
  "phase1_inputs = [''Forecasted Demand'', ''Forecasted Wind Supply'', ''Forecasted Solar Supply'',
     ''TotalResourceMWZoneSouth'', ''TotalResourceMWZoneNorth'',
     ''TotalResourceMWZoneWest'', ''TotalResourceMWZoneHouston'']"

fun num :: "val \<Rightarrow> real" where
  "num (Num x) = x"
| "num (Intg i) = of_int i"
| "num _ = 0"

definition is_num :: "val \<Rightarrow> bool" where
  "is_num v = (case v of Num _ \<Rightarrow> True | Intg _ \<Rightarrow> True | _ \<Rightarrow> False)"

text \<open>
  The sum and difference of two cells that are numbers or missing: what \<open>val_add\<close> and
  \<open>val_sub\<close> return on them.
\<close>

definition is_float :: "val \<Rightarrow> bool" where
  "is_float v = (is_num v \<or> v = NaN)"

fun vadd :: "val \<Rightarrow> val \<Rightarrow> val" where
  "vadd (Intg a) (Intg b) = Intg (a + b)"
| "vadd a b = (if is_num a \<and> is_num b then Num (num a + num b) else NaN)"

fun vsub :: "val \<Rightarrow> val \<Rightarrow> val" where
  "vsub (Intg a) (Intg b) = Intg (a - b)"
| "vsub a b = (if is_num a \<and> is_num b then Num (num a - num b) else NaN)"

definition mapcol :: "'v frame \<Rightarrow> string \<Rightarrow> ((string \<Rightarrow> 'v) \<Rightarrow> 'v) \<Rightarrow> 'v frame" where
  "mapcol df c g =
     \<lparr>columns = (if c \<in> set (columns df) then columns df else columns df @ [c]),
      rows = map (\<lambda>r. r(c := g r)) (rows df)\<rparr>"

definition derive_row :: "val \<Rightarrow> (string \<Rightarrow> val) \<Rightarrow> (string \<Rightarrow> val)" where
  "derive_row cap r =
    (let r1 = r(''Forecasted Renewables Output'' :=
                  vadd (r ''Forecasted Wind Supply'') (r ''Forecasted Solar Supply''));
         r2 = r1(''Dispatchable Supply'' :=
                  vsub (r1 ''Forecasted Demand'') (r1 ''Forecasted Renewables Output''));
         r3 = r2(''EACTOR_DHHRSR'' := cap);
         r4 = r3(''total_resource_outages'' :=
                  vadd (vadd (vadd (r3 ''TotalResourceMWZoneSouth'') (r3 ''TotalResourceMWZoneNorth''))
                     (r3 ''TotalResourceMWZoneWest'')) (r3 ''TotalResourceMWZoneHouston''));
         r5 = r4(''Forecasted Net Load'' :=
                  vsub (r4 ''Forecasted Demand'') (r4 ''Forecasted Renewables Output''));
         r6 = r5(''Forecasted Net Thermal Capacity'' :=
                  vsub (r5 ''EACTOR_DHHRSR'') (r5 ''total_resource_outages''))
     in r6(''Forecasted Thermal Reserve Margin'' :=
                  vsub (r6 ''Forecasted Net Thermal Capacity'') (r6 ''Forecasted Net Load'')))"

definition derive_prefix :: "val \<Rightarrow> val frame \<Rightarrow> val frame" where
  \<comment> \<open>the table after line 179, before the capacity column is first used in line 180\<close>
  "derive_prefix cap merged =
     mapcol (mapcol (mapcol (mapcol (mapcol merged
       ''Forecasted Renewables Output''
          (\<lambda>r. vadd (r ''Forecasted Wind Supply'') (r ''Forecasted Solar Supply'')))
       ''Dispatchable Supply''
          (\<lambda>r. vsub (r ''Forecasted Demand'') (r ''Forecasted Renewables Output'')))
       ''EACTOR_DHHRSR'' (\<lambda>r. cap))
       ''total_resource_outages''
          (\<lambda>r. vadd (vadd (vadd (r ''TotalResourceMWZoneSouth'') (r ''TotalResourceMWZoneNorth''))
                  (r ''TotalResourceMWZoneWest'')) (r ''TotalResourceMWZoneHouston'')))
       ''Forecasted Net Load''
          (\<lambda>r. vsub (r ''Forecasted Demand'') (r ''Forecasted Renewables Output''))"

text \<open>
  A synthetic joined table of two rows: an ordinary hour, and an hour with zero demand,
  curtailed (negative) wind and no outages.
\<close>

definition mk_row :: "(string \<times> 'v) list \<Rightarrow> 'v \<Rightarrow> string \<Rightarrow> 'v" where
  "mk_row kvs d c = (case map_of kvs c of Some v \<Rightarrow> v | None \<Rightarrow> d)"

definition ex_merged :: "val frame" where
  "ex_merged =
     \<lparr>columns = phase1_inputs,
      rows = [mk_row (zip phase1_inputs [Num 100.5, Num 30, Num 20, Intg 1, Intg 2, Intg 3, Intg 4]) NaN,
              mk_row (zip phase1_inputs [Intg 0, Num (-5), Num 0, Intg 0, Intg 0, Intg 0, Intg 0]) NaN]\<rparr>"

section \<open>Phase 2: the paginated API client\<close>

text \<open>
  The three credentials are read from the environment: each is absent (\<open>None\<close>) or a
  string, and Python's \<open>and\<close>/\<open>not\<close> treat the empty string like an absent one.
\<close>

record creds =
  API_USER :: "string option"
  API_PASS :: "string option"
  API_KEY :: "string option"

definition truthy :: "string option \<Rightarrow> bool" where
  "truthy s = (case s of None \<Rightarrow> False | Some t \<Rightarrow> t \<noteq> [])"

text \<open>
  A JSON object is an association list. A response page is what \<open>r.json()\<close> gives: its
  \<open>data\<close> entry (\<open>p_data\<close>, a list of row objects) and its \<open>fields\<close> entry (\<open>p_fields\<close>, a list of objects with a
  \<open>name\<close>), each of which may be absent. A request either fails (\<open>raise_for_status\<close>, a
  transfer error, a body that is not JSON) or yields such a payload.
\<close>

type_synonym 'v obj = "(string \<times> 'v) list"

record 'v payload =
  p_data :: "'v obj list option"
  p_fields :: "string obj list option"

datatype request = TokenRequest | PageRequest nat

definition get_data :: "'v payload \<Rightarrow> 'v obj list" where
  \<comment> \<open>\<open>payload.get("data", [])\<close>\<close>
  "get_data p = (case p_data p of None \<Rightarrow> [] | Some d \<Rightarrow> d)"

text \<open>
  The loop \<open>while True: ...\<close> of \<open>get_api_rtm_spp_yesterday\<close> and
  \<open>get_api_dam_spp_yesterday\<close>. The server is the function from the page number asked for
  to the response; \<open>page_size\<close> is \<open>params["size"]\<close>, \<open>page\<close> is \<open>params["page"]\<close>, \<open>rs\<close> the
  accumulator \<open>rows\<close> and \<open>reqs\<close> the requests issued so far. The loop has no bound of its own, so
  the result is an \<open>option\<close>: \<open>None\<close> means that it never returns. When it returns, it gives
  the requests issued and either the exception raised or the accumulated rows together
  with the payload of the last response (the variable \<open>payload\<close> after the loop).
\<close>

partial_function (option) fetch_pages ::
  "(nat \<Rightarrow> error + 'v payload) \<Rightarrow> nat \<Rightarrow> nat \<Rightarrow> 'v obj list \<Rightarrow> request list
     \<Rightarrow> (request list \<times> (error + 'v obj list \<times> 'v payload)) option" where
  "fetch_pages server page_size page rs reqs =
     (case server page of
        Inl e \<Rightarrow> Some (reqs @ [PageRequest page], Inl e)
      | Inr payload \<Rightarrow>
          if length (get_data payload) < page_size
          then Some (reqs @ [PageRequest page], Inr (rs @ get_data payload, payload))
          else fetch_pages server page_size (page + 1) (rs @ get_data payload)
                 (reqs @ [PageRequest page]))"

definition page_rows :: "(nat \<Rightarrow> error + 'v payload) \<Rightarrow> nat \<Rightarrow> 'v obj list" where
  "page_rows server p = (case server p of Inl e \<Rightarrow> [] | Inr payload \<Rightarrow> get_data payload)"

definition full_page :: "(nat \<Rightarrow> error + 'v payload) \<Rightarrow> nat \<Rightarrow> nat \<Rightarrow> bool" where
  \<comment> \<open>the request for page \<open>p\<close> succeeds and brings at least \<open>page_size\<close> rows\<close>
  "full_page server page_size p =
     (case server p of Inl e \<Rightarrow> False | Inr payload \<Rightarrow> page_size \<le> length (get_data payload))"

text \<open>
  \<open>get_api_token\<close>: the token endpoint answers with an error or with a JSON object whose
  \<open>id_token\<close> may be absent or empty.
\<close>

definition get_api_token :: "error + string option \<Rightarrow> error + string" where
  "get_api_token token_response =
     (case token_response of
        Inl e \<Rightarrow> Inl e
      | Inr token \<Rightarrow> (case token of
                       None \<Rightarrow> Inl RuntimeError
                     | Some t \<Rightarrow> if t = [] then Inl RuntimeError else Inr t))"

text \<open>
  \<open>pd.DataFrame(rows, columns=cols)\<close> for rows that are JSON objects: with \<open>cols\<close> given,
  the columns are exactly \<open>cols\<close>; without, they are the keys of the rows in the order of
  their first appearance. A key that a row lacks is a missing value.
\<close>

fun uniq :: "'a list \<Rightarrow> 'a list \<Rightarrow> 'a list" where
  "uniq seen [] = []"
| "uniq seen (x # xs) = (if x \<in> set seen then uniq seen xs else x # uniq (x # seen) xs)"

definition DataFrame :: "val obj list \<Rightarrow> string list option \<Rightarrow> val frame" where
  "DataFrame rs cols =
     \<lparr>columns = (case cols of Some cs \<Rightarrow> cs | None \<Rightarrow> uniq [] (concat (map (map fst) rs))),
      rows = map (\<lambda>r c. case map_of r c of Some v \<Rightarrow> v | None \<Rightarrow> NaN) rs\<rparr>"

definition field_names :: "string obj list \<Rightarrow> error + string list" where
  \<comment> \<open>\<open>[f["name"] for f in fields]\<close>\<close>
  "field_names fs =
     sequence (map (\<lambda>f. case map_of f ''name'' of
                            None \<Rightarrow> Inl (KeyError ''name'') | Some n \<Rightarrow> Inr n) fs)"

definition rtm_frame :: "val obj list \<Rightarrow> val payload \<Rightarrow> error + val frame" where
  \<comment> \<open>lines 116 and 117: \<open>fields\<close> is falsy when absent and when it is the empty list\<close>
  "rtm_frame rs payload =
     (case p_fields payload of
        None \<Rightarrow> Inr (DataFrame rs None)
      | Some fs \<Rightarrow> if fs = [] then Inr (DataFrame rs None)
                   else bind (field_names fs) (\<lambda>cols. Inr (DataFrame rs (Some cols))))"

text \<open>
  \<open>get_api_rtm_spp_yesterday\<close> and \<open>get_api_dam_spp_yesterday\<close>. The result is the list of
  network requests issued, and the exception raised or the optional result: \<open>None\<close> is
  Python's \<open>None\<close>, \<open>Some df\<close> stands for the path of the CSV file that holds the table \<open>df\<close>
  (the path is a non-empty string, so the caller's test \<open>if filename\<close> succeeds on it).
\<close>

definition get_api_rtm_spp_yesterday ::
  "creds \<Rightarrow> (error + string option) \<Rightarrow> (nat \<Rightarrow> error + val payload)
     \<Rightarrow> (request list \<times> (error + val frame option)) option" where
  "get_api_rtm_spp_yesterday c token_response server =
     (if \<not> (truthy (API_USER c) \<and> truthy (API_PASS c) \<and> truthy (API_KEY c))
      then Some ([], Inr None)
      else case get_api_token token_response of
        Inl e \<Rightarrow> Some ([TokenRequest], Inl e)
      | Inr token \<Rightarrow>
          (case fetch_pages server 100 1 [] [TokenRequest] of
             None \<Rightarrow> None
           | Some (reqs, Inl e) \<Rightarrow> Some (reqs, Inl e)
           | Some (reqs, Inr (rs, payload)) \<Rightarrow>
               if rs = [] then Some (reqs, Inr None)
               else Some (reqs, map_sum id Some (rtm_frame rs payload))))"

definition get_api_dam_spp_yesterday ::
  "creds \<Rightarrow> (error + string option) \<Rightarrow> (nat \<Rightarrow> error + val payload)
     \<Rightarrow> (request list \<times> (error + val frame option)) option" where
  "get_api_dam_spp_yesterday c token_response server =
     (if \<not> (truthy (API_USER c) \<and> truthy (API_PASS c) \<and> truthy (API_KEY c))
      then Some ([], Inr None)
      else case get_api_token token_response of
        Inl e \<Rightarrow> Some ([TokenRequest], Inl e)
      | Inr token \<Rightarrow>
          (case fetch_pages server 100 1 [] [TokenRequest] of
             None \<Rightarrow> None
           | Some (reqs, Inl e) \<Rightarrow> Some (reqs, Inl e)
           | Some (reqs, Inr (rs, payload)) \<Rightarrow>
               if rs = [] then Some (reqs, Inr None)
               else Some (reqs, Inr (Some (DataFrame rs None)))))"

text \<open>
  Example servers. \<open>ex_server\<close> answers pages 1 and 2 with 100 rows and page 3 with 99;
  any further page would fail. \<open>ex_schema_server\<close> answers page 1 with 100 rows and the
  declared field \<open>first\<close>, and page 2 with one row and the declared field \<open>second\<close>.
\<close>

definition ex_page :: "nat \<Rightarrow> nat \<Rightarrow> val obj list" where
  "ex_page p n = replicate n [(''page'', Intg (int p))]"

definition ex_server :: "nat \<Rightarrow> error + val payload" where
  "ex_server p =
     (if p = 1 \<or> p = 2 then Inr \<lparr>p_data = Some (ex_page p 100), p_fields = None\<rparr>
      else if p = 3 then Inr \<lparr>p_data = Some (ex_page p 99), p_fields = None\<rparr>
      else Inl HTTPError)"

definition ex_schema_server :: "nat \<Rightarrow> error + val payload" where
  "ex_schema_server p =
     (if p = 1 then Inr \<lparr>p_data = Some (ex_page p 100),
                          p_fields = Some [[(''name'', ''first'')]]\<rparr>
      else Inr \<lparr>p_data = Some (ex_page p 1), p_fields = Some [[(''name'', ''second'')]]\<rparr>)"

definition ex_creds :: creds where
  "ex_creds = \<lparr>API_USER = Some ''user'', API_PASS = Some ''secret'', API_KEY = Some ''key''\<rparr>"

definition creds_present :: "creds \<Rightarrow> bool" where
  "creds_present c = (truthy (API_USER c) \<and> truthy (API_PASS c) \<and> truthy (API_KEY c))"

definition result_columns :: "(request list \<times> (error + val frame option)) option \<Rightarrow> string list option" where
  \<comment> \<open>the column labels of the table a fetch returned, if it returned one\<close>
  "result_columns res =
     (case res of Some (reqs, Inr (Some df)) \<Rightarrow> Some (columns df) | _ \<Rightarrow> None)"

definition ex_keys_server :: "nat \<Rightarrow> error + val payload" where
  \<comment> \<open>a single short page of two rows, no declared fields\<close>
  "ex_keys_server p =
     Inr \<lparr>p_data = Some [[(''deliveryHour'', Intg 1), (''settlementPoint'', Str ''LZ_NORTH'')],
                           [(''settlementPoint'', Str ''LZ_NORTH''), (''settlementPointPrice'', Num 28)]],
          p_fields = None\<rparr>"

section \<open>Phase 2: the DART spread\<close>

text \<open>
  The data that \<open>plot_dart\<close> computes before it draws. \<open>select_eq\<close> is the row filter
  \<open>df[df[c] == v]\<close>. \<open>groupby_mean\<close> is \<open>df.groupby([k], as_index=False)[c].mean()\<close>: one row
  per distinct key, keys in ascending order, rows with a missing key dropped, the mean
  taken over the numbers of the group (missing values skipped, a missing value if none is
  left). The key column is the \<open>datetime\<close> column that \<open>main\<close> computes, so keys are
  timestamps or missing; any other key is refused with \<open>TypeError\<close>.
\<close>

definition select_eq :: "val frame \<Rightarrow> string \<Rightarrow> val \<Rightarrow> error + val frame" where
  "select_eq df c v =
     (if c \<in> set (columns df)
      then Inr \<lparr>columns = columns df, rows = filter (\<lambda>r. r c = v) (rows df)\<rparr>
      else Inl (KeyError c))"

definition is_stamp :: "val \<Rightarrow> bool" where
  "is_stamp v = (case v of Stamp d h m \<Rightarrow> True | _ \<Rightarrow> False)"

fun stamp_key :: "val \<Rightarrow> nat" where
  \<comment> \<open>minutes on a scale that orders valid timestamps chronologically\<close>
  "stamp_key (Stamp d h m) = ((((year d * 13 + month d) * 32 + day d) * 24 + h) * 60 + m)"
| "stamp_key _ = 0"

definition mean_vals :: "val list \<Rightarrow> error + val" where
  "mean_vals vs =
     (if \<exists>v\<in>set vs. \<not> is_num v \<and> v \<noteq> NaN then Inl TypeError
      else let xs = map num (filter is_num vs)
           in if xs = [] then Inr NaN else Inr (Num (sum_list xs / real (length xs))))"

definition groupby_mean :: "val frame \<Rightarrow> string \<Rightarrow> string \<Rightarrow> error + (val \<times> val) list" where
  "groupby_mean df k c =
     bind (getcol df k) (\<lambda>ks. bind (getcol df c) (\<lambda>vs.
       if \<exists>key\<in>set ks. \<not> is_stamp key \<and> key \<noteq> NaN then Inl TypeError
       else sequence (map (\<lambda>key. bind (mean_vals (map snd (filter (\<lambda>(k', v). k' = key) (zip ks vs))))
                                   (\<lambda>m. Inr (key, m)))
                          (sort_key stamp_key (remdups (filter is_stamp ks))))))"

text \<open>
  \<open>df.set_index(k).reindex(keys).reset_index()\<close>: one row per requested key, in the order
  of the keys; the row of the frame with that index value, or a row of missing values when
  the frame has none. pandas refuses (\<open>ValueError\<close>) to reindex a frame whose index values
  are not distinct.
\<close>

definition reindex :: "val frame \<Rightarrow> string \<Rightarrow> val list \<Rightarrow> error + val frame" where
  "reindex df k keys =
     (if k \<notin> set (columns df) then Inl (KeyError k)
      else if \<not> distinct (map (\<lambda>r. r k) (rows df)) then Inl ValueError
      else Inr \<lparr>columns = columns df,
                rows = map (\<lambda>key. case find (\<lambda>r. r k = key) (rows df) of
                                     Some r \<Rightarrow> r
                                   | None \<Rightarrow> (\<lambda>c. if c = k then key else NaN)) keys\<rparr>)"

text \<open>
  Lines 151 to 155 of \<open>eepp_phase_2.py\<close>. The result lists, per row of the hourly
  real-time table: the timestamp, the day-ahead price, the hourly real-time mean and the
  spread, which are the three series that the panel draws.
\<close>

definition dart_spread ::
  "val frame \<Rightarrow> val frame \<Rightarrow> string \<Rightarrow> error + (val \<times> val \<times> val \<times> val) list" where
  "dart_spread dam_yday rtm_yday sp =
     bind (select_eq dam_yday ''SettlementPoint'' (Str sp)) (\<lambda>dam.
     bind (select_eq rtm_yday ''settlementPoint'' (Str sp)) (\<lambda>rtm.
     bind (groupby_mean rtm ''datetime'' ''settlementPointPrice'') (\<lambda>rtm_hourly.
     bind (reindex dam ''datetime'' (map fst rtm_hourly)) (\<lambda>dam'.
     bind (getcol dam' ''SettlementPointPrice'') (\<lambda>dam_price.
     bind (series_sub dam_price (map snd rtm_hourly)) (\<lambda>spread.
     Inr (zip (map fst rtm_hourly) (zip dam_price (zip (map snd rtm_hourly) spread)))))))))"

text \<open>Example tables for one settlement point on 2024-01-10.\<close>

definition ex_day :: date where
  "ex_day = \<lparr>year = 2024, month = 1, day = 10\<rparr>"

definition dam_row :: "string \<Rightarrow> val \<Rightarrow> val \<Rightarrow> string \<Rightarrow> val" where
  "dam_row sp t p =
     mk_row [(''SettlementPoint'', Str sp), (''datetime'', t), (''SettlementPointPrice'', p)] NaN"

definition rtm_row :: "string \<Rightarrow> val \<Rightarrow> val \<Rightarrow> string \<Rightarrow> val" where
  "rtm_row sp t p =
     mk_row [(''settlementPoint'', Str sp), (''datetime'', t), (''settlementPointPrice'', p)] NaN"

definition ex_dam :: "val frame" where
  \<comment> \<open>day-ahead prices at hour-ending 5 (04:00) and hour-ending 6 (05:00)\<close>
  "ex_dam = \<lparr>columns = [''SettlementPoint'', ''datetime'', ''SettlementPointPrice''],
            rows = [dam_row ''LZ_NORTH'' (Stamp ex_day 4 0) (Num 30),
                    dam_row ''LZ_NORTH'' (Stamp ex_day 5 0) (Num 31),
                    dam_row ''LZ_HOUSTON'' (Stamp ex_day 4 0) (Num 40)]\<rparr>"

definition ex_rtm :: "val frame" where
  \<comment> \<open>real-time prices: three intervals of hour-ending 5, one of hour-ending 8\<close>
  "ex_rtm = \<lparr>columns = [''settlementPoint'', ''datetime'', ''settlementPointPrice''],
            rows = [rtm_row ''LZ_NORTH'' (Stamp ex_day 7 0) (Num 25),
                    rtm_row ''LZ_NORTH'' (Stamp ex_day 4 0) (Num 28),
                    rtm_row ''LZ_NORTH'' (Stamp ex_day 4 0) (Num 29),
                    rtm_row ''LZ_HOUSTON'' (Stamp ex_day 4 0) (Num 50),
                    rtm_row ''LZ_NORTH'' (Stamp ex_day 4 0) (Num 33)]\<rparr>"

text \<open>
  The spread in the words of the specification, to compare with \<open>dart_spread\<close>: the rows of
  one settlement point, the mean of its real-time prices at a timestamp, and its day-ahead
  price at a timestamp, if there is one.
\<close>

definition rows_of :: "val frame \<Rightarrow> string \<Rightarrow> string \<Rightarrow> (string \<Rightarrow> val) list" where
  "rows_of df spcol sp = filter (\<lambda>r. r spcol = Str sp) (rows df)"

definition hourly_mean :: "val frame \<Rightarrow> string \<Rightarrow> val \<Rightarrow> real" where
  "hourly_mean rtm sp t =
     (let xs = map (\<lambda>r. num (r ''settlementPointPrice''))
                 (filter (\<lambda>r. r ''datetime'' = t) (rows_of rtm ''settlementPoint'' sp))
      in sum_list xs / real (length xs))"

definition dam_at :: "val frame \<Rightarrow> string \<Rightarrow> val \<Rightarrow> val option" where
  "dam_at dam sp t =
     map_option (\<lambda>r. r ''SettlementPointPrice'')
       (find (\<lambda>r. r ''datetime'' = t) (rows_of dam ''SettlementPoint'' sp))"

definition spread_row :: "val frame \<Rightarrow> val frame \<Rightarrow> string \<Rightarrow> val \<Rightarrow> val \<times> val \<times> val \<times> val" where
  "spread_row dam rtm sp t =
     (case dam_at dam sp t of
        None \<Rightarrow> (t, NaN, Num (hourly_mean rtm sp t), NaN)
      | Some p \<Rightarrow> (t, p, Num (hourly_mean rtm sp t), Num (num p - hourly_mean rtm sp t)))"

definition rtm_hours :: "val frame \<Rightarrow> string \<Rightarrow> val list" where
  \<comment> \<open>the distinct timestamps of the real-time rows of \<open>sp\<close>, ascending\<close>
  "rtm_hours rtm sp =
     sort_key stamp_key (remdups (map (\<lambda>r. r ''datetime'') (rows_of rtm ''settlementPoint'' sp)))"

section \<open>Text of numbers and dates\<close>

text \<open>
  Python's \<open>str\<close> of an integer, \<open>int\<close> of a string, \<open>str.split\<close>, \<open>str.strip\<close> and
  \<open>str.zfill\<close>, on strings of ASCII characters.
\<close>

definition digit_char :: "nat \<Rightarrow> char" where
  "digit_char n = ''0123456789'' ! n"

fun position :: "'a \<Rightarrow> 'a list \<Rightarrow> nat option" where
  "position x [] = None"
| "position x (y # ys) = (if x = y then Some 0 else map_option Suc (position x ys))"

definition digit_val :: "char \<Rightarrow> nat option" where
  "digit_val c = position c ''0123456789''"

fun str_nat :: "nat \<Rightarrow> string" where
  "str_nat n = (if n < 10 then [digit_char n] else str_nat (n div 10) @ [digit_char (n mod 10)])"

definition str_int :: "int \<Rightarrow> string" where
  "str_int i = (if i < 0 then CHR ''-'' # str_nat (nat (- i)) else str_nat (nat i))"

fun digits_val :: "nat \<Rightarrow> string \<Rightarrow> nat option" where
  "digits_val acc [] = Some acc"
| "digits_val acc (c # cs) =
     (case digit_val c of None \<Rightarrow> None | Some d \<Rightarrow> digits_val (10 * acc + d) cs)"

definition parse_nat :: "string \<Rightarrow> nat option" where
  \<comment> \<open>a non-empty string of decimal digits\<close>
  "parse_nat s = (if s = [] then None else digits_val 0 s)"

definition is_space :: "char \<Rightarrow> bool" where
  "is_space c = (c = CHR '' '' \<or> c = CHR 0x09 \<or> c = CHR 0x0A \<or> c = CHR 0x0B
                 \<or> c = CHR 0x0C \<or> c = CHR 0x0D)"

definition strip :: "string \<Rightarrow> string" where
  "strip s = rev (dropWhile is_space (rev (dropWhile is_space s)))"

definition py_int :: "string \<Rightarrow> error + int" where
  \<comment> \<open>\<open>int(s)\<close>: surrounding whitespace, an optional sign, decimal digits; digit groups
      separated by underscores are left out of the model\<close>
  "py_int s =
     (let t = strip s;
          (neg, ds) = (case t of
                         c # cs \<Rightarrow> if c = CHR ''-'' then (True, cs)
                                   else if c = CHR ''+'' then (False, cs) else (False, t)
                       | [] \<Rightarrow> (False, t))
      in if CHR ''_'' \<in> set ds then Inl NotModelled
         else case parse_nat ds of
                None \<Rightarrow> Inl ValueError
              | Some n \<Rightarrow> Inr (if neg then - int n else int n))"

fun split_on :: "char \<Rightarrow> string \<Rightarrow> string list" where
  \<comment> \<open>\<open>s.split(sep)\<close> for a separator of one character\<close>
  "split_on sep [] = [[]]"
| "split_on sep (c # cs) =
     (if c = sep then [] # split_on sep cs
      else (case split_on sep cs of x # xs \<Rightarrow> (c # x) # xs | [] \<Rightarrow> [[c]]))"

definition zfill :: "nat \<Rightarrow> string \<Rightarrow> string" where
  "zfill n s = replicate (n - length s) CHR ''0'' @ s"

text \<open>
  Calendar dates. A date is valid when its month and day exist and its year lies within
  the years that a pandas timestamp (64-bit nanoseconds) covers in full.
\<close>

definition leap_year :: "nat \<Rightarrow> bool" where
  "leap_year y = (y mod 4 = 0 \<and> (y mod 100 \<noteq> 0 \<or> y mod 400 = 0))"

definition days_in_month :: "nat \<Rightarrow> nat \<Rightarrow> nat" where
  "days_in_month y m =
     (if m = 2 then (if leap_year y then 29 else 28)
      else if m = 4 \<or> m = 6 \<or> m = 9 \<or> m = 11 then 30 else 31)"

definition valid_ymd :: "nat \<Rightarrow> nat \<Rightarrow> nat \<Rightarrow> bool" where
  "valid_ymd y m d = (1 \<le> m \<and> m \<le> 12 \<and> 1 \<le> d \<and> d \<le> days_in_month y m)"

definition valid_date :: "date \<Rightarrow> bool" where
  "valid_date D = (1678 \<le> year D \<and> year D \<le> 2261 \<and> valid_ymd (year D) (month D) (day D))"

definition date_str :: "date \<Rightarrow> string" where
  \<comment> \<open>the ISO text \<open>YYYY-MM-DD\<close>, as \<open>astype(str)\<close> prints a column of dates\<close>
  "date_str D =
     zfill 4 (str_nat (year D)) @ ''-'' @ zfill 2 (str_nat (month D)) @ ''-''
       @ zfill 2 (str_nat (day D))"

section \<open>pandas: \<open>astype(str)\<close>, \<open>to_datetime\<close>\<close>

text \<open>
  \<open>astype(str)\<close> of a cell. A column of timestamps that all lie at midnight prints as
  dates; the date columns of the pipeline are such columns. The text of a float and of a
  timestamp with a time of day are not modelled.
\<close>

fun astype_str :: "val \<Rightarrow> error + string" where
  "astype_str (Intg i) = Inr (str_int i)"
| "astype_str (Str s) = Inr s"
| "astype_str NaN = Inr ''nan''"
| "astype_str (Stamp D h m) = (if h = 0 \<and> m = 0 then Inr (date_str D) else Inl NotModelled)"
| "astype_str (Num x) = Inl NotModelled"

text \<open>
  \<open>pd.to_datetime\<close> of a text, for the layouts that occur in the pipeline: a date
  \<open>YYYY-MM-DD\<close> or \<open>MM/DD/YYYY\<close>, alone or followed by a blank and a clock time \<open>H:MM\<close>.
  A field out of range (month 13, hour 24, minute 60) is a \<open>ValueError\<close>.
\<close>

definition parse_date :: "string \<Rightarrow> error + date" where
  "parse_date s =
     (case map parse_nat (split_on CHR ''-'' s) of
        [Some y, Some m, Some d] \<Rightarrow>
          if length (hd (split_on CHR ''-'' s)) \<noteq> 4 then Inl NotModelled
          else if valid_ymd y m d then Inr \<lparr>year = y, month = m, day = d\<rparr> else Inl ValueError
      | _ \<Rightarrow>
        (case map parse_nat (split_on CHR ''/'' s) of
           [Some m, Some d, Some y] \<Rightarrow>
             if length (last (split_on CHR ''/'' s)) \<noteq> 4 then Inl NotModelled
             else if valid_ymd y m d then Inr \<lparr>year = y, month = m, day = d\<rparr> else Inl ValueError
         | _ \<Rightarrow> Inl NotModelled))"

definition parse_clock :: "string \<Rightarrow> error + nat \<times> nat" where
  "parse_clock s =
     (case map parse_nat (split_on CHR '':'' s) of
        [Some h, Some m] \<Rightarrow> if h < 24 \<and> m < 60 then Inr (h, m) else Inl ValueError
      | _ \<Rightarrow> Inl NotModelled)"

definition to_datetime :: "string \<Rightarrow> error + val" where
  "to_datetime s =
     (case split_on CHR '' '' s of
        [d] \<Rightarrow> bind (parse_date d) (\<lambda>D. Inr (Stamp D 0 0))
      | [d, t] \<Rightarrow> bind (parse_date d) (\<lambda>D. bind (parse_clock t) (\<lambda>(h, m). Inr (Stamp D h m)))
      | _ \<Rightarrow> Inl NotModelled)"

fun to_datetime_cell :: "val \<Rightarrow> error + val" where
  \<comment> \<open>\<open>pd.to_datetime\<close> of a column, cell by cell: text is parsed, a timestamp is kept\<close>
  "to_datetime_cell (Str s) = to_datetime s"
| "to_datetime_cell (Stamp D h m) = Inr (Stamp D h m)"
| "to_datetime_cell v = Inl NotModelled"

section \<open>The canonical timestamp\<close>

text \<open>
  \<open>col.astype(str).str.split(":").str[0].astype(int)\<close> on one cell (line 162 of phase 1,
  line 204 of phase 2). The text of a float always holds a point, an exponent or letters,
  that of a missing value is \<open>nan\<close>, that of a timestamp holds hyphens: \<open>int\<close> refuses all
  of them.
\<close>

fun hour_ending_cell :: "val \<Rightarrow> error + val" where
  "hour_ending_cell (Intg i) = map_sum id Intg (py_int (hd (split_on CHR '':'' (str_int i))))"
| "hour_ending_cell (Str s) = map_sum id Intg (py_int (hd (split_on CHR '':'' s)))"
| "hour_ending_cell v = Inl ValueError"

text \<open>
  \<open>pd.to_datetime(date.astype(str) + " " + (hour - 1).astype(str) + ":00")\<close> on one row
  (line 182 of phase 1, lines 205 and 208 of phase 2).
\<close>

definition datetime_cell :: "val \<Rightarrow> val \<Rightarrow> error + val" where
  "datetime_cell date_cell hour_cell =
     bind (astype_str date_cell) (\<lambda>d.
     bind (val_sub hour_cell (Intg 1)) (\<lambda>h1.
     bind (astype_str h1) (\<lambda>h.
     to_datetime (d @ '' '' @ h @ '':00''))))"

definition normalize_row :: "val \<Rightarrow> val \<Rightarrow> error + val" where
  \<comment> \<open>the hour column reduced to an integer, then the timestamp built from it\<close>
  "normalize_row date_cell hour_cell =
     bind (hour_ending_cell hour_cell) (\<lambda>hour_ending. datetime_cell date_cell hour_ending)"

definition is_digit :: "char \<Rightarrow> bool" where
  "is_digit c = (digit_val c \<noteq> None)"

section \<open>Fetching and extracting an archive\<close>

text \<open>
  \<open>download_and_extract_zip\<close> of both phases. The response to the download is an exception
  (\<open>raise_for_status\<close>, a transfer error) or the body; the body is a zip archive, given by
  its members in the order of \<open>namelist()\<close>, or is not one (\<open>BadZipFile\<close>). A member is its
  name and what extracting it yields: its bytes, or the exception that extracting it raises
  (a corrupt or encrypted member, a write that the system refuses).

  Paths follow the POSIX rules of \<open>os.path\<close>. The file system is a map from normalised
  paths to contents; opening a path looks up its normal form.
\<close>

type_synonym bytes = string

type_synonym member = "string \<times> (error + bytes)"

datatype body = Archive "member list" | NotAnArchive

type_synonym filesystem = "string \<rightharpoonup> bytes"

definition os_path_join :: "string \<Rightarrow> string \<Rightarrow> string" where
  "os_path_join a b =
     (if b \<noteq> [] \<and> hd b = CHR ''/'' then b
      else if a = [] \<or> last a = CHR ''/'' then a @ b
      else a @ ''/'' @ b)"

fun join_with :: "string \<Rightarrow> string list \<Rightarrow> string" where
  \<comment> \<open>\<open>sep.join(parts)\<close>\<close>
  "join_with sep [] = []"
| "join_with sep [p] = p"
| "join_with sep (p # q # ps) = p @ sep @ join_with sep (q # ps)"

fun norm_comps :: "bool \<Rightarrow> string list \<Rightarrow> string list \<Rightarrow> string list" where
  \<comment> \<open>the loop of \<open>posixpath.normpath\<close> over the components, \<open>new_comps\<close> as accumulator\<close>
  "norm_comps initial_slashes [] new_comps = new_comps"
| "norm_comps initial_slashes (part # parts) new_comps =
     (if part = [] \<or> part = ''.'' then norm_comps initial_slashes parts new_comps
      else if part \<noteq> ''..'' \<or> (\<not> initial_slashes \<and> new_comps = [])
                \<or> (new_comps \<noteq> [] \<and> last new_comps = ''..'')
           then norm_comps initial_slashes parts (new_comps @ [part])
      else if new_comps \<noteq> [] then norm_comps initial_slashes parts (butlast new_comps)
      else norm_comps initial_slashes parts new_comps)"

definition normpath :: "string \<Rightarrow> string" where
  "normpath path =
     (if path = [] then ''.''
      else let initial_slashes =
                 (if take 2 path = ''//'' \<and> take 3 path \<noteq> ''///'' then 2
                  else if take 1 path = ''/'' then 1 else (0::nat));
               p = replicate initial_slashes CHR ''/''
                     @ join_with ''/'' (norm_comps (initial_slashes \<noteq> 0) (split_on CHR ''/'' path) [])
           in if p = [] then ''.'' else p)"

definition open_file :: "filesystem \<Rightarrow> string \<Rightarrow> bytes option" where
  "open_file fs path = fs (normpath path)"

text \<open>
  \<open>ZipFile.extractall(path)\<close>, member by member in the order of the archive. The name of a
  member is sanitised first: the components that are empty, \<open>.\<close> or \<open>..\<close> are dropped (so a
  leading slash is dropped too). A name that ends in a slash is a directory, which is
  created and holds no bytes. A file member whose sanitised name is empty cannot be
  written. Otherwise the member is written at the normal form of the target directory
  joined with the sanitised name, over whatever was there. The first exception ends the
  extraction.
\<close>

definition arcname :: "string \<Rightarrow> string" where
  "arcname name =
     join_with ''/'' (filter (\<lambda>x. x \<noteq> [] \<and> x \<noteq> ''.'' \<and> x \<noteq> ''..'') (split_on CHR ''/'' name))"

definition is_dir :: "string \<Rightarrow> bool" where
  "is_dir name = (name \<noteq> [] \<and> last name = CHR ''/'')"

definition targetpath :: "string \<Rightarrow> string \<Rightarrow> string" where
  "targetpath extract_to name = normpath (os_path_join extract_to (arcname name))"

fun extractall :: "string \<Rightarrow> member list \<Rightarrow> filesystem \<Rightarrow> error + filesystem" where
  "extractall extract_to [] fs = Inr fs"
| "extractall extract_to ((name, content) # members) fs =
     (if is_dir name then extractall extract_to members fs
      else if arcname name = [] then Inl ValueError
      else case content of
             Inl e \<Rightarrow> Inl e
           | Inr b \<Rightarrow> extractall extract_to members (fs(targetpath extract_to name \<mapsto> b)))"

definition namelist :: "member list \<Rightarrow> string list" where
  "namelist members = map fst members"

definition first_name :: "string list \<Rightarrow> error + string" where
  \<comment> \<open>\<open>names[0]\<close>\<close>
  "first_name names = (case names of [] \<Rightarrow> Inl IndexError | n # ns \<Rightarrow> Inr n)"

definition download_and_extract_zip1 ::
  "error + body \<Rightarrow> string \<Rightarrow> filesystem \<Rightarrow> error + filesystem \<times> string" where
  \<comment> \<open>\<open>eepp_phase_1.py\<close>: returns \<open>names[0]\<close>\<close>
  "download_and_extract_zip1 response extract_to fs =
     (case response of
        Inl e \<Rightarrow> Inl e
      | Inr NotAnArchive \<Rightarrow> Inl BadZipFile
      | Inr (Archive members) \<Rightarrow>
          bind (extractall extract_to members fs) (\<lambda>fs'.
          bind (first_name (namelist members)) (\<lambda>n. Inr (fs', n))))"

definition download_and_extract_zip2 ::
  "error + body \<Rightarrow> string \<Rightarrow> filesystem \<Rightarrow> error + filesystem \<times> string" where
  \<comment> \<open>\<open>eepp_phase_2.py\<close>: returns \<open>os.path.join(extract_to, names[0])\<close>\<close>
  "download_and_extract_zip2 response extract_to fs =
     (case response of
        Inl e \<Rightarrow> Inl e
      | Inr NotAnArchive \<Rightarrow> Inl BadZipFile
      | Inr (Archive members) \<Rightarrow>
          bind (extractall extract_to members fs) (\<lambda>fs'.
          bind (first_name (namelist members)) (\<lambda>n. Inr (fs', os_path_join extract_to n))))"

text \<open>
  What the statements below speak of: the path a call returns; the file that the caller
  of phase 2 finds when it opens the returned path, and the caller of phase 1 when it
  opens the returned name joined to the download directory (\<open>process_file\<close>); the members
  that extract; the plain file names; and the bytes that the archive holds last for a
  target path.
\<close>

definition returned_path :: "error + filesystem \<times> string \<Rightarrow> error + string" where
  "returned_path res = map_sum id snd res"

definition file_at_returned_path :: "error + filesystem \<times> string \<Rightarrow> bytes option" where
  "file_at_returned_path res = (case res of Inl e \<Rightarrow> None | Inr (fs, p) \<Rightarrow> open_file fs p)"

definition file_at_joined_name :: "string \<Rightarrow> error + filesystem \<times> string \<Rightarrow> bytes option" where
  "file_at_joined_name dir res =
     (case res of Inl e \<Rightarrow> None | Inr (fs, n) \<Rightarrow> open_file fs (os_path_join dir n))"

definition files_after :: "error + filesystem \<times> string \<Rightarrow> filesystem option" where
  "files_after res = (case res of Inl e \<Rightarrow> None | Inr (fs, p) \<Rightarrow> Some fs)"

definition extracts :: "member \<Rightarrow> bool" where
  "extracts m = (is_dir (fst m) \<or> (arcname (fst m) \<noteq> [] \<and> \<not> isl (snd m)))"

definition plain_name :: "string \<Rightarrow> bool" where
  "plain_name name = (CHR ''/'' \<notin> set name \<and> name \<noteq> [] \<and> name \<noteq> ''.'' \<and> name \<noteq> ''..'')"

fun written :: "string \<Rightarrow> member list \<Rightarrow> string \<Rightarrow> bytes option" where
  \<comment> \<open>the bytes of the last file member of the archive whose target is the path\<close>
  "written extract_to [] p = None"
| "written extract_to ((name, content) # members) p =
     (case written extract_to members p of
        Some b \<Rightarrow> Some b
      | None \<Rightarrow> (case content of
                   Inr b \<Rightarrow> if \<not> is_dir name \<and> targetpath extract_to name = p then Some b else None
                 | Inl e \<Rightarrow> None))"

section \<open>Phase 1: reading the capacity value, joining, renaming\<close>

text \<open>
  \<open>pd.read_excel(path, sheet_name=...)\<close>: the workbook is the list of its sheets, each
  already a frame; a missing sheet is a \<open>ValueError\<close>. \<open>df.iloc[i, j]\<close> reads by position
  and raises \<open>IndexError\<close> outside the frame.
\<close>

definition read_excel :: "(string \<times> val frame) list \<Rightarrow> string \<Rightarrow> error + val frame" where
  "read_excel workbook sheet_name =
     (case map_of workbook sheet_name of None \<Rightarrow> Inl ValueError | Some df \<Rightarrow> Inr df)"

definition iloc :: "'v frame \<Rightarrow> nat \<Rightarrow> nat \<Rightarrow> error + 'v" where
  "iloc df i j =
     (if i < length (rows df) \<and> j < length (columns df)
      then Inr ((rows df ! i) (columns df ! j)) else Inl IndexError)"

definition getattr :: "'v frame \<Rightarrow> string \<Rightarrow> error + 'v list" where
  \<comment> \<open>\<open>df.name\<close>: the column, or \<open>AttributeError\<close>\<close>
  "getattr df c =
     (if c \<in> set (columns df) then Inr (map (\<lambda>r. r c) (rows df)) else Inl (AttributeError c))"

text \<open>
  \<open>left.merge(right, left_on=..., right_on=...)\<close> with pandas' defaults: an inner join,
  suffixes \<open>_x\<close> and \<open>_y\<close>. (\<open>on=keys\<close> is \<open>left_on=keys, right_on=keys\<close>.) A key that is
  not a column is a \<open>KeyError\<close>. A key column of the right frame that has the name of its
  partner on the left is dropped. A label that then occurs on both sides gets the suffix
  \<open>_x\<close> on the left and \<open>_y\<close> on the right; if that produces a duplicate label on one
  side, pandas raises \<open>MergeError\<close>. The rows are the pairs of a left and a right row that
  agree on the keys, in the order of the left frame. Numbers are compared by value, other
  cells by identity. The frames are those of \<open>read_csv\<close>: their labels are distinct and the
  two columns of a key pair are of the same kind.
\<close>

definition cell_eq :: "val \<Rightarrow> val \<Rightarrow> bool" where
  "cell_eq a b = (if is_num a \<and> is_num b then num a = num b else a = b)"

fun missing_key :: "string list \<Rightarrow> string list \<Rightarrow> (string \<times> string) list \<Rightarrow> string option" where
  "missing_key lcols rcols [] = None"
| "missing_key lcols rcols ((lk, rk) # ks) =
     (if rk \<notin> set rcols then Some rk
      else if lk \<notin> set lcols then Some lk
      else missing_key lcols rcols ks)"

definition join_row ::
  "string list \<Rightarrow> string list \<Rightarrow> (string \<Rightarrow> string) \<Rightarrow> (string \<Rightarrow> string)
     \<Rightarrow> (string \<Rightarrow> val) \<Rightarrow> (string \<Rightarrow> val) \<Rightarrow> string \<Rightarrow> val" where
  "join_row lcols rcols lren rren l r n =
     (case find (\<lambda>c. lren c = n) lcols of
        Some c \<Rightarrow> l c
      | None \<Rightarrow> (case find (\<lambda>c. rren c = n) rcols of Some c \<Rightarrow> r c | None \<Rightarrow> NaN))"

definition merge :: "val frame \<Rightarrow> val frame \<Rightarrow> string list \<Rightarrow> string list \<Rightarrow> error + val frame" where
  "merge left right left_on right_on =
     (if length left_on \<noteq> length right_on then Inl ValueError
      else case missing_key (columns left) (columns right) (zip left_on right_on) of
        Some k \<Rightarrow> Inl (KeyError k)
      | None \<Rightarrow>
          let right_drop = map snd (filter (\<lambda>(lk, rk). lk = rk) (zip left_on right_on));
              rcols = filter (\<lambda>c. c \<notin> set right_drop) (columns right);
              overlap = filter (\<lambda>c. c \<in> set rcols) (columns left);
              lren = (\<lambda>c. if c \<in> set overlap then c @ ''_x'' else c);
              rren = (\<lambda>c. if c \<in> set overlap then c @ ''_y'' else c);
              llabels = map lren (columns left);
              rlabels = map rren rcols
          in if \<not> distinct llabels \<or> \<not> distinct rlabels then Inl MergeError
             else Inr \<lparr>columns = llabels @ rlabels,
                       rows = concat (map (\<lambda>l. map (join_row (columns left) rcols lren rren l)
                                (filter (\<lambda>r. list_all2 cell_eq (map l left_on) (map r right_on))
                                   (rows right)))
                              (rows left))\<rparr>)"

text \<open>
  \<open>df.rename(columns=m)\<close>: labels that \<open>m\<close> names are replaced, labels that the frame does
  not have are ignored.
\<close>

definition rename :: "'v frame \<Rightarrow> (string \<times> string) list \<Rightarrow> 'v frame" where
  "rename df m =
     (let ren = (\<lambda>c. case map_of m c of Some n \<Rightarrow> n | None \<Rightarrow> c)
      in \<lparr>columns = map ren (columns df),
          rows = map (\<lambda>r n. case find (\<lambda>c. ren c = n) (columns df) of
                               Some c \<Rightarrow> r c | None \<Rightarrow> r n) (rows df)\<rparr>)"

text \<open>
  Lines 159 to 182 of \<open>eepp_phase_1.py\<close>, from the five tables as read to the table that
  is plotted and saved.
\<close>

definition phase1_table ::
  "val frame \<Rightarrow> val frame \<Rightarrow> val frame \<Rightarrow> val frame \<Rightarrow> (string \<times> val frame) list
     \<Rightarrow> error + val frame" where
  "phase1_table df_solar df_wind df_sys df_hroc workbook =
     bind (read_excel workbook ''Capacity by Resource Category'') (\<lambda>df_mora.
     bind (iloc df_mora 2 3) (\<lambda>eactor_dhhrsr_value.
     bind (merge df_solar df_wind [''DELIVERY_DATE'', ''HOUR_ENDING'']
             [''DELIVERY_DATE'', ''HOUR_ENDING'']) (\<lambda>wind_solar.
     bind (getattr df_sys ''HourEnding'') (\<lambda>he.
     bind (sequence (map hour_ending_cell he)) (\<lambda>hour_ending.
     bind (Inr (setcol df_sys ''HOUR_ENDING'' hour_ending)) (\<lambda>df_sys.
     bind (merge wind_solar df_hroc [''DELIVERY_DATE'', ''HOUR_ENDING'']
             [''Date'', ''HourEnding'']) (\<lambda>wind_solar_hroc.
     bind (merge df_sys wind_solar_hroc [''DeliveryDate'', ''HOUR_ENDING'']
             [''DELIVERY_DATE'', ''HOUR_ENDING'']) (\<lambda>merged.
     bind (Inr (rename merged
             [(''SystemTotal'', ''Forecasted Demand''),
              (''COP_HSL_SYSTEM_WIDE_y'', ''Forecasted Wind Supply''),
              (''COP_HSL_SYSTEM_WIDE_x'', ''Forecasted Solar Supply'')])) (\<lambda>merged.
     bind (phase1_derive eactor_dhhrsr_value merged) (\<lambda>merged.
     bind (getattr merged ''DeliveryDate'') (\<lambda>dd.
     bind (getattr merged ''HOUR_ENDING'') (\<lambda>he.
     bind (sequence (map (\<lambda>(d, h). datetime_cell d h) (zip dd he))) (\<lambda>dt.
     Inr (setcol merged ''datetime'' dt))))))))))))))"

text \<open>
  Example tables for one delivery hour: solar and wind both carry a measurement column
  named \<open>COP_HSL_SYSTEM_WIDE\<close>; the capacity sheet has four rows and four columns.
\<close>

definition ex_solar :: "val frame" where
  "ex_solar = \<lparr>columns = [''DELIVERY_DATE'', ''HOUR_ENDING'', ''COP_HSL_SYSTEM_WIDE''],
      rows = [mk_row [(''DELIVERY_DATE'', Stamp ex_day 0 0), (''HOUR_ENDING'', Intg 24),
                      (''COP_HSL_SYSTEM_WIDE'', Num 20)] NaN]\<rparr>"

definition ex_wind :: "val frame" where
  "ex_wind = \<lparr>columns = [''DELIVERY_DATE'', ''HOUR_ENDING'', ''COP_HSL_SYSTEM_WIDE''],
      rows = [mk_row [(''DELIVERY_DATE'', Stamp ex_day 0 0), (''HOUR_ENDING'', Intg 24),
                      (''COP_HSL_SYSTEM_WIDE'', Num 30)] NaN]\<rparr>"

definition ex_sys :: "val frame" where
  "ex_sys = \<lparr>columns = [''DeliveryDate'', ''HourEnding'', ''SystemTotal''],
      rows = [mk_row [(''DeliveryDate'', Stamp ex_day 0 0), (''HourEnding'', Str ''24:00''),
                      (''SystemTotal'', Num 100)] NaN]\<rparr>"

definition ex_hroc :: "val frame" where
  "ex_hroc = \<lparr>columns = [''Date'', ''HourEnding'', ''TotalResourceMWZoneSouth'',
        ''TotalResourceMWZoneNorth'', ''TotalResourceMWZoneWest'', ''TotalResourceMWZoneHouston''],
      rows = [mk_row [(''Date'', Stamp ex_day 0 0), (''HourEnding'', Intg 24),
                      (''TotalResourceMWZoneSouth'', Num 1), (''TotalResourceMWZoneNorth'', Num 2),
                      (''TotalResourceMWZoneWest'', Num 3), (''TotalResourceMWZoneHouston'', Num 4)]
                NaN]\<rparr>"

definition ex_sheet :: "val \<Rightarrow> val frame" where
  \<comment> \<open>a capacity sheet whose cell in row 2, column 3 is \<open>v\<close>\<close>
  "ex_sheet v = \<lparr>columns = [''Category'', ''A'', ''B'', ''C''],
      rows = [mk_row [(''Category'', Str ''Thermal'')] NaN,
              mk_row [(''Category'', Str ''Wind'')] NaN,
              mk_row [(''Category'', Str ''Total''), (''C'', v)] NaN,
              mk_row [(''Category'', Str ''Notes'')] NaN]\<rparr>"

definition ex_workbook :: "val \<Rightarrow> (string \<times> val frame) list" where
  "ex_workbook v = [(''Summary'', \<lparr>columns = [], rows = []\<rparr>),
                    (''Capacity by Resource Category'', ex_sheet v)]"

text \<open>
  Lines 159 and 160: the capacity value. A label is unsuffixed when it does not already end
  in one of the two suffixes that a join appends.
\<close>

definition capacity_value :: "(string \<times> val frame) list \<Rightarrow> error + val" where
  "capacity_value workbook =
     bind (read_excel workbook ''Capacity by Resource Category'') (\<lambda>df_mora. iloc df_mora 2 3)"

definition has_suffix :: "string \<Rightarrow> string \<Rightarrow> bool" where
  "has_suffix s a = (length s \<le> length a \<and> drop (length a - length s) a = s)"

definition unsuffixed :: "string \<Rightarrow> bool" where
  "unsuffixed a = (\<not> has_suffix ''_x'' a \<and> \<not> has_suffix ''_y'' a)"

section \<open>Proofs: the error monad and column arithmetic\<close>

lemma bind_Inr [simp]: "bind (Inr x) f = f x"
  by (simp add: bind_def)

lemma bind_Inl [simp]: "bind (Inl e) f = Inl e"
  by (simp add: bind_def)

lemma sequence_map_Inr:
  "\<forall>x\<in>set xs. f x = Inr (g x) \<Longrightarrow> sequence (map f xs) = Inr (map g xs)"
  by (induction xs) simp_all

lemma is_float_num [simp]: "is_num v \<Longrightarrow> is_float v"
  by (simp add: is_float_def)

lemma val_add_float: "is_float a \<Longrightarrow> is_float b \<Longrightarrow> val_add a b = Inr (vadd a b)"
  by (cases a; cases b) (simp_all add: is_float_def is_num_def)

lemma val_sub_float: "is_float a \<Longrightarrow> is_float b \<Longrightarrow> val_sub a b = Inr (vsub a b)"
  by (cases a; cases b) (simp_all add: is_float_def is_num_def)

lemma is_float_vadd [simp]: "is_float (vadd a b)"
  by (cases a; cases b) (simp_all add: is_float_def is_num_def)

lemma is_float_vsub [simp]: "is_float (vsub a b)"
  by (cases a; cases b) (simp_all add: is_float_def is_num_def)

lemma is_num_vadd [simp]: "is_num a \<Longrightarrow> is_num b \<Longrightarrow> is_num (vadd a b)"
  by (cases a; cases b) (simp_all add: is_num_def)

lemma is_num_vsub [simp]: "is_num a \<Longrightarrow> is_num b \<Longrightarrow> is_num (vsub a b)"
  by (cases a; cases b) (simp_all add: is_num_def)

lemma num_vadd [simp]: "is_num a \<Longrightarrow> is_num b \<Longrightarrow> num (vadd a b) = num a + num b"
  by (cases a; cases b) (simp_all add: is_num_def)

lemma num_vsub [simp]: "is_num a \<Longrightarrow> is_num b \<Longrightarrow> num (vsub a b) = num a - num b"
  by (cases a; cases b) (simp_all add: is_num_def)

lemma vsub_NaN [simp]: "vsub NaN b = NaN" "vsub a NaN = NaN"
  by (simp_all add: is_num_def)

lemma zip_map_same: "map h (zip (map f rs) (map g rs)) = map (\<lambda>r. h (f r, g r)) rs"
  by (induction rs) simp_all

lemma series_add_rows:
  assumes "\<forall>r\<in>set rs. is_float (f r) \<and> is_float (g r)"
  shows "series_add (map f rs) (map g rs) = Inr (map (\<lambda>r. vadd (f r) (g r)) rs)"
  using assms by (simp add: series_add_def zip_map_same sequence_map_Inr val_add_float)

lemma series_sub_rows:
  assumes "\<forall>r\<in>set rs. is_float (f r) \<and> is_float (g r)"
  shows "series_sub (map f rs) (map g rs) = Inr (map (\<lambda>r. vsub (f r) (g r)) rs)"
  using assms by (simp add: series_sub_def zip_map_same sequence_map_Inr val_sub_float)

lemma setcol_map: "setcol df c (map g (rows df)) = mapcol df c g"
proof -
  have "map (\<lambda>(r, v). r(c := v)) (zip rs (map g rs)) = map (\<lambda>r. r(c := g r)) rs" for rs
    by (induction rs) simp_all
  then show ?thesis by (simp add: setcol_def mapcol_def)
qed

lemma setscalar_mapcol: "setscalar df c v = mapcol df c (\<lambda>_. v)"
  using setcol_map [of df c "\<lambda>_. v"] by (simp add: setscalar_def map_replicate_const)

lemma columns_mapcol: "set (columns (mapcol df c g)) = insert c (set (columns df))"
  by (auto simp: mapcol_def)

lemma rows_mapcol: "rows (mapcol df c g) = map (\<lambda>r. r(c := g r)) (rows df)"
  by (simp add: mapcol_def)

lemma assign_add_num:
  assumes "a \<in> set (columns df)" "b \<in> set (columns df)"
    and "\<forall>r\<in>set (rows df). is_float (r a) \<and> is_float (r b)"
  shows "assign_add df c a b = Inr (mapcol df c (\<lambda>r. vadd (r a) (r b)))"
  using assms by (simp add: assign_add_def getcol_def series_add_rows setcol_map)

lemma assign_sub_num:
  assumes "a \<in> set (columns df)" "b \<in> set (columns df)"
    and "\<forall>r\<in>set (rows df). is_float (r a) \<and> is_float (r b)"
  shows "assign_sub df c a b = Inr (mapcol df c (\<lambda>r. vsub (r a) (r b)))"
  using assms by (simp add: assign_sub_def getcol_def series_sub_rows setcol_map)

lemma assign_sum4_num:
  assumes "a1 \<in> set (columns df)" "a2 \<in> set (columns df)"
    and "a3 \<in> set (columns df)" "a4 \<in> set (columns df)"
    and "\<forall>r\<in>set (rows df). is_float (r a1) \<and> is_float (r a2) \<and> is_float (r a3) \<and> is_float (r a4)"
  shows "assign_sum4 df c a1 a2 a3 a4 =
     Inr (mapcol df c (\<lambda>r. vadd (vadd (vadd (r a1) (r a2)) (r a3)) (r a4)))"
proof -
  have 1: "series_add (map (\<lambda>r. r a1) (rows df)) (map (\<lambda>r. r a2) (rows df))
     = Inr (map (\<lambda>r. vadd (r a1) (r a2)) (rows df))"
    using assms(5) by (simp add: series_add_rows)
  have 2: "series_add (map (\<lambda>r. vadd (r a1) (r a2)) (rows df)) (map (\<lambda>r. r a3) (rows df))
     = Inr (map (\<lambda>r. vadd (vadd (r a1) (r a2)) (r a3)) (rows df))"
    using assms(5) by (intro series_add_rows) simp
  have 3: "series_add (map (\<lambda>r. vadd (vadd (r a1) (r a2)) (r a3)) (rows df))
       (map (\<lambda>r. r a4) (rows df))
     = Inr (map (\<lambda>r. vadd (vadd (vadd (r a1) (r a2)) (r a3)) (r a4)) (rows df))"
    using assms(5) by (intro series_add_rows) simp
  show ?thesis
    using assms(1-4) by (simp add: assign_sum4_def getcol_def 1 2 3 setcol_map)
qed

lemma phase1_derive_prefix:
  assumes cols: "set phase1_inputs \<subseteq> set (columns merged)"
    and nums: "\<forall>r\<in>set (rows merged). \<forall>c\<in>set phase1_inputs. is_float (r c)"
  shows "phase1_derive cap merged =
     bind (assign_sub (derive_prefix cap merged) ''Forecasted Net Thermal Capacity''
             ''EACTOR_DHHRSR'' ''total_resource_outages'') (\<lambda>m6.
     assign_sub m6 ''Forecasted Thermal Reserve Margin''
             ''Forecasted Net Thermal Capacity'' ''Forecasted Net Load'')"
proof -
  define m1 where "m1 = mapcol merged ''Forecasted Renewables Output''
     (\<lambda>r. vadd (r ''Forecasted Wind Supply'') (r ''Forecasted Solar Supply''))"
  define m2 where "m2 = mapcol m1 ''Dispatchable Supply''
     (\<lambda>r. vsub (r ''Forecasted Demand'') (r ''Forecasted Renewables Output''))"
  define m3 where "m3 = mapcol m2 ''EACTOR_DHHRSR'' (\<lambda>_. cap)"
  define m4 where "m4 = mapcol m3 ''total_resource_outages''
     (\<lambda>r. vadd (vadd (vadd (r ''TotalResourceMWZoneSouth'') (r ''TotalResourceMWZoneNorth''))
              (r ''TotalResourceMWZoneWest'')) (r ''TotalResourceMWZoneHouston''))"
  define m5 where "m5 = mapcol m4 ''Forecasted Net Load''
     (\<lambda>r. vsub (r ''Forecasted Demand'') (r ''Forecasted Renewables Output''))"
  note ms = m1_def m2_def m3_def m4_def m5_def
  have m5: "m5 = derive_prefix cap merged"
    by (simp add: ms derive_prefix_def)
  from cols have in0: "''Forecasted Demand'' \<in> set (columns merged)"
    "''Forecasted Wind Supply'' \<in> set (columns merged)"
    "''Forecasted Solar Supply'' \<in> set (columns merged)"
    "''TotalResourceMWZoneSouth'' \<in> set (columns merged)"
    "''TotalResourceMWZoneNorth'' \<in> set (columns merged)"
    "''TotalResourceMWZoneWest'' \<in> set (columns merged)"
    "''TotalResourceMWZoneHouston'' \<in> set (columns merged)"
    by (simp_all add: phase1_inputs_def)
  from nums have n0: "\<forall>r\<in>set (rows merged). is_float (r ''Forecasted Demand'')
      \<and> is_float (r ''Forecasted Wind Supply'') \<and> is_float (r ''Forecasted Solar Supply'')
      \<and> is_float (r ''TotalResourceMWZoneSouth'') \<and> is_float (r ''TotalResourceMWZoneNorth'')
      \<and> is_float (r ''TotalResourceMWZoneWest'') \<and> is_float (r ''TotalResourceMWZoneHouston'')"
    by (simp add: phase1_inputs_def)
  have s1: "assign_add merged ''Forecasted Renewables Output''
           ''Forecasted Wind Supply'' ''Forecasted Solar Supply'' = Inr m1"
    unfolding m1_def using in0 n0 by (intro assign_add_num) simp_all
  have s2: "assign_sub m1 ''Dispatchable Supply''
           ''Forecasted Demand'' ''Forecasted Renewables Output'' = Inr m2"
    unfolding m2_def using in0 n0
    by (intro assign_sub_num) (simp_all add: m1_def columns_mapcol rows_mapcol)
  have s3: "setscalar m2 ''EACTOR_DHHRSR'' cap = m3"
    by (simp add: m3_def setscalar_mapcol)
  have s4: "assign_sum4 m3 ''total_resource_outages''
           ''TotalResourceMWZoneSouth'' ''TotalResourceMWZoneNorth''
           ''TotalResourceMWZoneWest'' ''TotalResourceMWZoneHouston'' = Inr m4"
    unfolding m4_def using in0 n0
    by (intro assign_sum4_num) (simp_all add: m1_def m2_def m3_def columns_mapcol rows_mapcol)
  have s5: "assign_sub m4 ''Forecasted Net Load''
           ''Forecasted Demand'' ''Forecasted Renewables Output'' = Inr m5"
    unfolding m5_def using in0 n0
    by (intro assign_sub_num)
      (simp_all add: m1_def m2_def m3_def m4_def columns_mapcol rows_mapcol)
  show ?thesis
    by (simp add: phase1_derive_def s1 s2 s3 s4 s5 m5)
qed

lemma rows_derive_prefix:
  "rows (derive_prefix cap merged) = map (\<lambda>r.
     (let r1 = r(''Forecasted Renewables Output'' :=
                  vadd (r ''Forecasted Wind Supply'') (r ''Forecasted Solar Supply''));
         r2 = r1(''Dispatchable Supply'' :=
                  vsub (r1 ''Forecasted Demand'') (r1 ''Forecasted Renewables Output''));
         r3 = r2(''EACTOR_DHHRSR'' := cap);
         r4 = r3(''total_resource_outages'' :=
                  vadd (vadd (vadd (r3 ''TotalResourceMWZoneSouth'') (r3 ''TotalResourceMWZoneNorth''))
                     (r3 ''TotalResourceMWZoneWest'')) (r3 ''TotalResourceMWZoneHouston''))
      in r4(''Forecasted Net Load'' :=
                  vsub (r4 ''Forecasted Demand'') (r4 ''Forecasted Renewables Output'')))) (rows merged)"
  by (simp add: derive_prefix_def rows_mapcol Let_def o_def)

lemma columns_derive_prefix:
  "set (columns (derive_prefix cap merged)) =
     {''Forecasted Renewables Output'', ''Dispatchable Supply'', ''EACTOR_DHHRSR'',
      ''total_resource_outages'', ''Forecasted Net Load''} \<union> set (columns merged)"
  by (auto simp: derive_prefix_def columns_mapcol)

lemma phase1_derive_rows:
  assumes cols: "set phase1_inputs \<subseteq> set (columns merged)"
    and nums: "\<forall>r\<in>set (rows merged). \<forall>c\<in>set phase1_inputs. is_float (r c)"
    and cap: "is_float cap"
  shows "\<exists>out. phase1_derive cap merged = Inr out
           \<and> rows out = map (derive_row cap) (rows merged)
           \<and> set (columns merged) \<subseteq> set (columns out)"
proof -
  let ?m5 = "derive_prefix cap merged"
  define m6 where "m6 = mapcol ?m5 ''Forecasted Net Thermal Capacity''
     (\<lambda>r. vsub (r ''EACTOR_DHHRSR'') (r ''total_resource_outages''))"
  define m7 where "m7 = mapcol m6 ''Forecasted Thermal Reserve Margin''
     (\<lambda>r. vsub (r ''Forecasted Net Thermal Capacity'') (r ''Forecasted Net Load''))"
  have s6: "assign_sub ?m5 ''Forecasted Net Thermal Capacity''
           ''EACTOR_DHHRSR'' ''total_resource_outages'' = Inr m6"
    unfolding m6_def using cap
    by (intro assign_sub_num) (simp_all add: columns_derive_prefix rows_derive_prefix Let_def)
  have s7: "assign_sub m6 ''Forecasted Thermal Reserve Margin''
           ''Forecasted Net Thermal Capacity'' ''Forecasted Net Load'' = Inr m7"
    unfolding m7_def
    by (intro assign_sub_num)
      (simp_all add: m6_def columns_mapcol rows_mapcol columns_derive_prefix rows_derive_prefix Let_def)
  have run: "phase1_derive cap merged = Inr m7"
    by (simp add: phase1_derive_prefix [OF cols nums] s6 s7)
  have "rows m7 = map (derive_row cap) (rows merged)"
    by (simp add: m6_def m7_def rows_mapcol rows_derive_prefix derive_row_def Let_def o_def)
  moreover have "set (columns merged) \<subseteq> set (columns m7)"
    by (auto simp: m6_def m7_def columns_mapcol columns_derive_prefix)
  ultimately show ?thesis using run by blast
qed

section \<open>Phase 1 derived metrics\<close>

text \<open>
  C2. On a joined table whose seven input columns are present and numeric (any floats or
  integers, zero and negative included) and with a numeric capacity scalar \<open>cap\<close>, the
  derivation returns a table with the same number of rows in which, on every row, with
  \<open>num\<close> the value of a cell:
  renewables output = wind + solar; dispatchable supply = demand - renewables output;
  net load = demand - renewables output, and the two cells are equal;
  total resource outages = South + North + West + Houston;
  the capacity column holds \<open>cap\<close>; net thermal capacity = \<open>cap\<close> - total resource outages;
  thermal reserve margin = net thermal capacity - net load; all derived cells are numbers.
\<close>

theorem phase1_derived_metrics:
  assumes cols: "set phase1_inputs \<subseteq> set (columns merged)"
    and nums: "\<forall>r\<in>set (rows merged). \<forall>c\<in>set phase1_inputs. is_num (r c)"
    and cap: "is_num cap"
  shows "\<exists>out. phase1_derive cap merged = Inr out \<and>
      length (rows out) = length (rows merged) \<and>
      (\<forall>i<length (rows merged).
         (let r = rows merged ! i; r' = rows out ! i;
              demand = num (r ''Forecasted Demand'');
              renewables_output = num (r' ''Forecasted Renewables Output'');
              dispatchable_supply = num (r' ''Dispatchable Supply'');
              net_load = num (r' ''Forecasted Net Load'');
              total_resource_outages = num (r' ''total_resource_outages'');
              net_thermal_capacity = num (r' ''Forecasted Net Thermal Capacity'');
              thermal_reserve_margin = num (r' ''Forecasted Thermal Reserve Margin'')
          in renewables_output =
               num (r ''Forecasted Wind Supply'') + num (r ''Forecasted Solar Supply'') \<and>
             dispatchable_supply = demand - renewables_output \<and>
             net_load = demand - renewables_output \<and>
             r' ''Dispatchable Supply'' = r' ''Forecasted Net Load'' \<and>
             total_resource_outages =
               num (r ''TotalResourceMWZoneSouth'') + num (r ''TotalResourceMWZoneNorth'')
                  + num (r ''TotalResourceMWZoneWest'') + num (r ''TotalResourceMWZoneHouston'') \<and>
             r' ''EACTOR_DHHRSR'' = cap \<and>
             net_thermal_capacity = num cap - total_resource_outages \<and>
             thermal_reserve_margin = net_thermal_capacity - net_load \<and>
             is_num (r' ''Forecasted Renewables Output'') \<and>
             is_num (r' ''Dispatchable Supply'') \<and>
             is_num (r' ''total_resource_outages'') \<and>
             is_num (r' ''Forecasted Net Thermal Capacity'') \<and>
             is_num (r' ''Forecasted Thermal Reserve Margin'')))"
proof -
  have nums': "\<forall>r\<in>set (rows merged). \<forall>c\<in>set phase1_inputs. is_float (r c)"
    using nums by simp
  have cap': "is_float cap"
    using cap by simp
  from phase1_derive_rows [OF cols nums' cap']
  obtain out where run: "phase1_derive cap merged = Inr out"
    and rws: "rows out = map (derive_row cap) (rows merged)"
    by blast
  have len: "length (rows out) = length (rows merged)"
    by (simp add: rws)
  have row: "rows out ! i = derive_row cap (rows merged ! i)" if "i < length (rows merged)" for i
    using that by (simp add: rws)
  have inp: "is_num ((rows merged ! i) c)" if "i < length (rows merged)" "c \<in> set phase1_inputs" for i c
    using that nums nth_mem by blast
  have "is_num ((rows merged ! i) ''Forecasted Demand'')
      \<and> is_num ((rows merged ! i) ''Forecasted Wind Supply'')
      \<and> is_num ((rows merged ! i) ''Forecasted Solar Supply'')
      \<and> is_num ((rows merged ! i) ''TotalResourceMWZoneSouth'')
      \<and> is_num ((rows merged ! i) ''TotalResourceMWZoneNorth'')
      \<and> is_num ((rows merged ! i) ''TotalResourceMWZoneWest'')
      \<and> is_num ((rows merged ! i) ''TotalResourceMWZoneHouston'')" if "i < length (rows merged)" for i
    using inp [OF that] by (simp add: phase1_inputs_def)
  with run len row cap show ?thesis
    by (simp add: derive_row_def Let_def)
qed

lemma ex_merged_ok:
  "set phase1_inputs \<subseteq> set (columns ex_merged)"
  "\<forall>r\<in>set (rows ex_merged). \<forall>c\<in>set phase1_inputs. is_num (r c)"
  by (simp_all add: ex_merged_def phase1_inputs_def mk_row_def is_num_def)

theorem phase1_derived_metrics_witness:
  "\<exists>out. phase1_derive (Intg 1000) ex_merged = Inr out \<and>
      length (rows out) = 2 \<and>
      num ((rows out ! 0) ''Forecasted Renewables Output'') = 50 \<and>
      num ((rows out ! 0) ''Dispatchable Supply'') = 50.5 \<and>
      num ((rows out ! 0) ''total_resource_outages'') = 10 \<and>
      num ((rows out ! 0) ''Forecasted Net Thermal Capacity'') = 990 \<and>
      num ((rows out ! 0) ''Forecasted Thermal Reserve Margin'') = 939.5 \<and>
      num ((rows out ! 1) ''Forecasted Renewables Output'') = -5 \<and>
      num ((rows out ! 1) ''Forecasted Net Load'') = 5 \<and>
      num ((rows out ! 1) ''Forecasted Net Thermal Capacity'') = 1000 \<and>
      num ((rows out ! 1) ''Forecasted Thermal Reserve Margin'') = 995"
proof -
  have two: "(\<forall>i<2. P i) = (P 0 \<and> P (Suc 0))" for P :: "nat \<Rightarrow> bool"
    by (auto simp: less_Suc_eq numeral_2_eq_2)
  have e0: "rows ex_merged ! 0 =
      mk_row (zip phase1_inputs [Num 100.5, Num 30, Num 20, Intg 1, Intg 2, Intg 3, Intg 4]) NaN"
    and e1: "rows ex_merged ! Suc 0 =
      mk_row (zip phase1_inputs [Intg 0, Num (-5), Num 0, Intg 0, Intg 0, Intg 0, Intg 0]) NaN"
    and l2: "length (rows ex_merged) = 2"
    by (simp_all add: ex_merged_def)
  have "is_num (Intg 1000)"
    by (simp add: is_num_def)
  from phase1_derived_metrics [OF ex_merged_ok this, unfolded Let_def l2]
  show ?thesis
    by (auto simp: two e0 e1 mk_row_def phase1_inputs_def)
qed

section \<open>The paginated fetch\<close>


lemma fetch_pages_run:
  assumes "\<forall>j<m. full_page server page_size (p + j)" and "\<not> full_page server page_size (p + m)"
  shows "fetch_pages server page_size p rs reqs =
     Some (reqs @ map PageRequest [p..<p + m + 1],
           case server (p + m) of
             Inl e \<Rightarrow> Inl e
           | Inr lastp \<Rightarrow> Inr (rs @ concat (map (page_rows server) [p..<p + m + 1]), lastp))"
  using assms
proof (induction m arbitrary: p rs reqs)
  case 0
  then show ?case
    by (subst fetch_pages.simps) (simp add: full_page_def page_rows_def split: sum.splits)
next
  case (Suc m)
  from Suc.prems(1) have full: "full_page server page_size p"
    by (metis add.right_neutral zero_less_Suc)
  then obtain pl where pl: "server p = Inr pl" "page_size \<le> length (get_data pl)"
    by (auto simp: full_page_def split: sum.splits)
  have "\<forall>j<m. full_page server page_size (Suc p + j)"
    using Suc.prems(1) by (metis Suc_less_eq add_Suc_shift)
  moreover have "\<not> full_page server page_size (Suc p + m)"
    using Suc.prems(2) by simp
  ultimately have IH: "fetch_pages server page_size (Suc p) (rs @ get_data pl) (reqs @ [PageRequest p]) =
     Some ((reqs @ [PageRequest p]) @ map PageRequest [Suc p..<Suc p + m + 1],
           case server (Suc p + m) of
             Inl e \<Rightarrow> Inl e
           | Inr lastp \<Rightarrow> Inr ((rs @ get_data pl) @ concat (map (page_rows server) [Suc p..<Suc p + m + 1]), lastp))"
    by (rule Suc.IH)
  have step: "fetch_pages server page_size p rs reqs =
      fetch_pages server page_size (Suc p) (rs @ get_data pl) (reqs @ [PageRequest p])"
    using pl by (subst fetch_pages.simps) (simp add: not_less)
  have up: "[p..<p + Suc m + 1] = p # [Suc p..<Suc p + m + 1]"
    by (simp add: upt_rec)
  have pr: "page_rows server p = get_data pl"
    by (simp add: page_rows_def pl)
  have sv: "server (p + Suc m) = server (Suc p + m)"
    by simp
  show ?case
    unfolding step IH up sv by (simp add: pr split: sum.splits)
qed


lemma first_stop:
  assumes "1 \<le> k" "\<not> full_page server page_size k"
  shows "\<exists>n. 1 \<le> n \<and> n \<le> k \<and> (\<forall>j. 1 \<le> j \<and> j < n \<longrightarrow> full_page server page_size j)
           \<and> \<not> full_page server page_size n"
proof -
  define n where "n = (LEAST n. 1 \<le> n \<and> \<not> full_page server page_size n)"
  have P: "1 \<le> n \<and> \<not> full_page server page_size n"
    unfolding n_def using assms by (intro LeastI [of "\<lambda>n. 1 \<le> n \<and> \<not> full_page server page_size n" k]) simp
  have "n \<le> k"
    unfolding n_def using assms by (intro Least_le) simp
  moreover have "full_page server page_size j" if "1 \<le> j" "j < n" for j
    using that not_less_Least [of j "\<lambda>n. 1 \<le> n \<and> \<not> full_page server page_size n"]
    by (auto simp: n_def)
  ultimately show ?thesis using P by blast
qed

text \<open>
  C6. The loop asks for pages 1, 2, 3, ... of the fixed page size. If some page \<open>k\<close> is not
  a full page (its response is short, or the request fails), the loop returns: there is a
  first such page \<open>n \<le> k\<close>, every page before it is full, exactly the pages \<open>1..n\<close> are
  requested, in this order, and the result is the exception of page \<open>n\<close> or else the
  concatenation of the rows of pages \<open>1..n\<close> in the order received, with the payload of
  page \<open>n\<close>. For pages of 100, 100 and 99 rows this makes exactly three requests
  (\<open>paged_fetch_witness\<close>).
\<close>

theorem paged_fetch_stops_at_first_short_page:
  assumes "1 \<le> k" and "\<not> full_page server page_size k"
  shows "\<exists>n. 1 \<le> n \<and> n \<le> k \<and>
           (\<forall>j. 1 \<le> j \<and> j < n \<longrightarrow> full_page server page_size j) \<and>
           \<not> full_page server page_size n \<and>
           fetch_pages server page_size 1 [] [] =
             Some (map PageRequest [1..<Suc n],
                   case server n of
                     Inl e \<Rightarrow> Inl e
                   | Inr lastp \<Rightarrow> Inr (concat (map (page_rows server) [1..<Suc n]), lastp))"
proof -
  from first_stop [OF assms] obtain n where n: "1 \<le> n" "n \<le> k"
    "\<forall>j. 1 \<le> j \<and> j < n \<longrightarrow> full_page server page_size j" "\<not> full_page server page_size n"
    by blast
  obtain m where m: "n = 1 + m"
    using n(1) by (metis le_Suc_ex)
  have "\<forall>j<m. full_page server page_size (1 + j)"
    using n(3) m by simp
  moreover have "\<not> full_page server page_size (1 + m)"
    using n(4) m by simp
  ultimately have "fetch_pages server page_size 1 [] [] =
     Some ([] @ map PageRequest [1..<1 + m + 1],
           case server (1 + m) of
             Inl e \<Rightarrow> Inl e
           | Inr lastp \<Rightarrow> Inr ([] @ concat (map (page_rows server) [1..<1 + m + 1]), lastp))"
    by (rule fetch_pages_run)
  moreover have "1 + m + 1 = Suc n" "1 + m = n"
    by (simp_all add: m)
  ultimately have "fetch_pages server page_size 1 [] [] =
             Some (map PageRequest [1..<Suc n],
                   case server n of
                     Inl e \<Rightarrow> Inl e
                   | Inr lastp \<Rightarrow> Inr (concat (map (page_rows server) [1..<Suc n]), lastp))"
    by (simp only: append_Nil)
  with n show ?thesis by blast
qed

lemma ex_server_pages:
  "full_page ex_server 100 1" "full_page ex_server 100 2" "\<not> full_page ex_server 100 3"
  by (simp_all add: full_page_def ex_server_def get_data_def ex_page_def)

theorem paged_fetch_witness:
  "fetch_pages ex_server 100 1 [] [] =
     Some ([PageRequest 1, PageRequest 2, PageRequest 3],
           Inr (ex_page 1 100 @ ex_page 2 100 @ ex_page 3 99,
                \<lparr>p_data = Some (ex_page 3 99), p_fields = None\<rparr>))"
proof -
  have "(1::nat) \<le> 3" by simp
  from paged_fetch_stops_at_first_short_page [OF this ex_server_pages(3)]
  obtain n where n: "1 \<le> n" "n \<le> 3" "\<not> full_page ex_server 100 n"
    and run: "fetch_pages ex_server 100 1 [] [] =
             Some (map PageRequest [1..<Suc n],
                   case ex_server n of
                     Inl e \<Rightarrow> Inl e
                   | Inr lastp \<Rightarrow> Inr (concat (map (page_rows ex_server) [1..<Suc n]), lastp))"
    by blast
  from n(1,2) have "n = 1 \<or> n = 2 \<or> n = 3" by arith
  with n(3) ex_server_pages have n3: "n = 3" by auto
  have up: "[1..<Suc 3] = [1, 2, 3]"
    by (simp add: upt_rec)
  show ?thesis
    unfolding run n3 up by (simp add: ex_server_def page_rows_def get_data_def)
qed


section \<open>Column names of the real-time table\<close>

text \<open>
  C9, as stated, fails: the names are not those of the first page's schema. With page 1
  (100 rows) declaring the field \<open>first\<close> and page 2 (one row) declaring \<open>second\<close>, the
  table has the single column \<open>second\<close>.
\<close>

theorem rtm_columns_counterexample:
  "result_columns (get_api_rtm_spp_yesterday ex_creds (Inr (Some ''token'')) ex_schema_server)
     = Some [''second''] \<and>
   map_option field_names (p_fields (projr (ex_schema_server 1))) = Some (Inr [''first''])"
proof -
  have "fetch_pages ex_schema_server 100 1 [] [TokenRequest] =
      Some ([TokenRequest, PageRequest 1, PageRequest 2],
            Inr (ex_page 1 100 @ ex_page 2 1,
                 \<lparr>p_data = Some (ex_page 2 1), p_fields = Some [[(''name'', ''second'')]]\<rparr>))"
    by (simp add: fetch_pages.simps ex_schema_server_def get_data_def ex_page_def)
  then show ?thesis
    by (simp add: get_api_rtm_spp_yesterday_def ex_creds_def truthy_def get_api_token_def
        result_columns_def rtm_frame_def field_names_def DataFrame_def ex_page_def
        ex_schema_server_def)
qed

text \<open>
  C9, amended. With the credentials present and a token granted, let the fetch end at page
  \<open>n\<close> (every earlier page full, page \<open>n\<close> short) with at least one row in all. The
  column names of the table are the names declared by the \<open>fields\<close> of the last page
  \<open>n\<close>, when that page declares a non-empty list of fields (each with a name); when it
  declares none, they are the keys of the rows, in the order of their first appearance.
\<close>

theorem rtm_columns_from_last_page:
  assumes creds: "creds_present c" and tok: "get_api_token tr = Inr tok"
    and n: "1 \<le> n" and full: "\<forall>j. 1 \<le> j \<and> j < n \<longrightarrow> full_page server 100 j"
    and lastp: "server n = Inr lastp" and short: "length (get_data lastp) < 100"
    and rs: "concat (map (page_rows server) [1..<Suc n]) \<noteq> []"
  shows "result_columns (get_api_rtm_spp_yesterday c tr server) =
     (case p_fields lastp of
        None \<Rightarrow> Some (uniq [] (concat (map (map fst) (concat (map (page_rows server) [1..<Suc n])))))
      | Some fs \<Rightarrow>
          if fs = []
          then Some (uniq [] (concat (map (map fst) (concat (map (page_rows server) [1..<Suc n])))))
          else (case field_names fs of Inl e \<Rightarrow> None | Inr names \<Rightarrow> Some names))"
proof -
  obtain m where m: "n = 1 + m"
    using n by (metis le_Suc_ex)
  have "\<forall>j<m. full_page server 100 (1 + j)"
    using full m by simp
  moreover have "\<not> full_page server 100 (1 + m)"
    using lastp short m by (simp add: full_page_def)
  ultimately have "fetch_pages server 100 1 [] [TokenRequest] =
     Some ([TokenRequest] @ map PageRequest [1..<1 + m + 1],
           case server (1 + m) of
             Inl e \<Rightarrow> Inl e
           | Inr lastp \<Rightarrow> Inr ([] @ concat (map (page_rows server) [1..<1 + m + 1]), lastp))"
    by (rule fetch_pages_run)
  moreover have "1 + m + 1 = Suc n" "1 + m = n"
    by (simp_all add: m)
  ultimately have run: "fetch_pages server 100 1 [] [TokenRequest] =
     Some ([TokenRequest] @ map PageRequest [1..<Suc n],
           Inr (concat (map (page_rows server) [1..<Suc n]), lastp))"
    by (simp only: append_Nil lastp sum.case)
  have res: "get_api_rtm_spp_yesterday c tr server =
      Some ([TokenRequest] @ map PageRequest [1..<Suc n],
            map_sum id Some (rtm_frame (concat (map (page_rows server) [1..<Suc n])) lastp))"
    unfolding get_api_rtm_spp_yesterday_def using creds rs
    by (simp only: creds_present_def tok run simp_thms if_False sum.case option.case prod.case)
  show ?thesis
    unfolding res
    by (simp add: result_columns_def rtm_frame_def DataFrame_def del: upt_Suc
        split: option.splits sum.splits)
qed

theorem rtm_columns_from_last_page_witness:
  "result_columns (get_api_rtm_spp_yesterday ex_creds (Inr (Some ''token'')) ex_keys_server)
     = Some [''deliveryHour'', ''settlementPoint'', ''settlementPointPrice'']"
proof -
  have c: "creds_present ex_creds"
    by (simp add: creds_present_def ex_creds_def truthy_def)
  have t: "get_api_token (Inr (Some ''token'')) = Inr ''token''"
    by (simp add: get_api_token_def)
  have up: "[1..<Suc 1] = [1]"
    by simp
  show ?thesis
    using rtm_columns_from_last_page [OF c t, of 1 ex_keys_server, unfolded up]
    by (simp add: ex_keys_server_def get_data_def page_rows_def)
qed

section \<open>The DART spread\<close>


lemma select_eq_ok:
  "c \<in> set (columns df) \<Longrightarrow>
     select_eq df c (Str sp) = Inr \<lparr>columns = columns df, rows = rows_of df c sp\<rparr>"
  by (simp add: select_eq_def rows_of_def)

lemma mean_vals_numeric:
  assumes "vs \<noteq> []" "\<forall>v\<in>set vs. is_num v"
  shows "mean_vals vs = Inr (Num (sum_list (map num vs) / real (length vs)))"
proof -
  have "filter is_num vs = vs"
    using assms(2) by (simp add: filter_id_conv)
  moreover have "\<not> (\<exists>v\<in>set vs. \<not> is_num v \<and> v \<noteq> NaN)"
    using assms(2) by blast
  ultimately show ?thesis
    using assms(1) by (simp add: mean_vals_def Let_def)
qed

lemma group_zip:
  "map snd (filter (\<lambda>(k', v). k' = key) (zip (map f rs) (map g rs))) = map g (filter (\<lambda>r. f r = key) rs)"
  by (induction rs) simp_all

lemma groupby_mean_ok:
  assumes k: "k \<in> set (columns df)" and c: "c \<in> set (columns df)"
    and ok: "\<forall>r\<in>set (rows df). is_stamp (r k) \<and> is_num (r c)"
  shows "groupby_mean df k c =
     Inr (map (\<lambda>key. (key, Num (sum_list (map (\<lambda>r. num (r c)) (filter (\<lambda>r. r k = key) (rows df)))
                                   / real (length (filter (\<lambda>r. r k = key) (rows df))))))
              (sort_key stamp_key (remdups (map (\<lambda>r. r k) (rows df)))))"
proof -
  let ?ks = "map (\<lambda>r. r k) (rows df)"
  let ?vs = "map (\<lambda>r. r c) (rows df)"
  let ?keys = "sort_key stamp_key (remdups ?ks)"
  have stamps: "filter is_stamp ?ks = ?ks"
    using ok by (simp add: filter_id_conv)
  have noerr: "\<not> (\<exists>key\<in>set ?ks. \<not> is_stamp key \<and> key \<noteq> NaN)"
    using ok by auto
  have each: "bind (mean_vals (map snd (filter (\<lambda>(k', v). k' = key) (zip ?ks ?vs)))) (\<lambda>m. Inr (key, m))
      = Inr (key, Num (sum_list (map (\<lambda>r. num (r c)) (filter (\<lambda>r. r k = key) (rows df)))
                                   / real (length (filter (\<lambda>r. r k = key) (rows df)))))"
    if "key \<in> set ?keys" for key
  proof -
    let ?g = "filter (\<lambda>r. r k = key) (rows df)"
    from that have "key \<in> set ?ks" by simp
    then have ne: "map (\<lambda>r. r c) ?g \<noteq> []"
      by (auto simp: filter_empty_conv)
    have nm: "\<forall>v\<in>set (map (\<lambda>r. r c) ?g). is_num v"
      using ok by auto
    show ?thesis
      by (simp add: group_zip mean_vals_numeric [OF ne nm] o_def)
  qed
  have "groupby_mean df k c =
      sequence (map (\<lambda>key. bind (mean_vals (map snd (filter (\<lambda>(k', v). k' = key) (zip ?ks ?vs))))
                                   (\<lambda>m. Inr (key, m))) ?keys)"
    using k c ok by (simp add: groupby_mean_def getcol_def stamps)
  also have "\<dots> = Inr (map (\<lambda>key. (key, Num (sum_list (map (\<lambda>r. num (r c)) (filter (\<lambda>r. r k = key) (rows df)))
                                   / real (length (filter (\<lambda>r. r k = key) (rows df)))))) ?keys)"
    by (rule sequence_map_Inr) (use each in blast)
  finally show ?thesis .
qed

lemma series_sub_map:
  assumes "\<forall>t\<in>set ts. val_sub (f t) (g t) = Inr (h t)"
  shows "series_sub (map f ts) (map g ts) = Inr (map h ts)"
  using assms by (simp add: series_sub_def zip_map_same sequence_map_Inr)

lemma zip_maps: "zip (map f ts) (zip (map g ts) (zip (map h ts) (map k ts))) = map (\<lambda>t. (f t, g t, h t, k t)) ts"
  by (induction ts) simp_all

lemma dart_spread_eq:
  assumes dcols: "''SettlementPoint'' \<in> set (columns dam)" "''datetime'' \<in> set (columns dam)"
      "''SettlementPointPrice'' \<in> set (columns dam)"
    and rcols: "''settlementPoint'' \<in> set (columns rtm)" "''datetime'' \<in> set (columns rtm)"
      "''settlementPointPrice'' \<in> set (columns rtm)"
    and rok: "\<forall>r\<in>set (rows_of rtm ''settlementPoint'' sp).
                 is_stamp (r ''datetime'') \<and> is_num (r ''settlementPointPrice'')"
    and dok: "\<forall>r\<in>set (rows_of dam ''SettlementPoint'' sp). is_num (r ''SettlementPointPrice'')"
    and ddist: "distinct (map (\<lambda>r. r ''datetime'') (rows_of dam ''SettlementPoint'' sp))"
  shows "dart_spread dam rtm sp = Inr (map (spread_row dam rtm sp) (rtm_hours rtm sp))"
proof -
  let ?D = "\<lparr>columns = columns dam, rows = rows_of dam ''SettlementPoint'' sp\<rparr>"
  let ?R = "\<lparr>columns = columns rtm, rows = rows_of rtm ''settlementPoint'' sp\<rparr>"
  let ?keys = "rtm_hours rtm sp"
  let ?hourly = "map (\<lambda>t. (t, Num (hourly_mean rtm sp t))) ?keys"
  have g: "groupby_mean ?R ''datetime'' ''settlementPointPrice'' = Inr ?hourly"
    using groupby_mean_ok [of "''datetime''" ?R "''settlementPointPrice''"] rcols rok
    by (simp add: hourly_mean_def rtm_hours_def Let_def o_def)
  have keys: "map fst ?hourly = ?keys" and means: "map snd ?hourly = map (\<lambda>t. Num (hourly_mean rtm sp t)) ?keys"
    by (simp_all add: o_def)
  let ?row = "\<lambda>key. case find (\<lambda>r. r ''datetime'' = key) (rows_of dam ''SettlementPoint'' sp) of
                       Some r \<Rightarrow> r | None \<Rightarrow> (\<lambda>c. if c = ''datetime'' then key else NaN)"
  have r: "reindex ?D ''datetime'' ?keys = Inr \<lparr>columns = columns dam, rows = map ?row ?keys\<rparr>"
    using dcols ddist by (simp add: reindex_def)
  let ?price = "\<lambda>t. case dam_at dam sp t of None \<Rightarrow> NaN | Some p \<Rightarrow> p"
  have p: "getcol \<lparr>columns = columns dam, rows = map ?row ?keys\<rparr> ''SettlementPointPrice'' = Inr (map ?price ?keys)"
    using dcols by (simp add: getcol_def dam_at_def o_def split: option.splits)
  let ?spread = "\<lambda>t. case dam_at dam sp t of None \<Rightarrow> NaN | Some p \<Rightarrow> Num (num p - hourly_mean rtm sp t)"
  have "val_sub (?price t) (Num (hourly_mean rtm sp t)) = Inr (?spread t)" for t
  proof (cases "dam_at dam sp t")
    case None
    then show ?thesis by simp
  next
    case (Some p)
    then obtain r where "find (\<lambda>r. r ''datetime'' = t) (rows_of dam ''SettlementPoint'' sp) = Some r"
      and "p = r ''SettlementPointPrice''"
      by (auto simp: dam_at_def)
    then have "is_num p"
      using dok by (auto simp: find_Some_iff)
    then show ?thesis
      using Some by (cases p) (simp_all add: is_num_def)
  qed
  then have s: "series_sub (map ?price ?keys) (map (\<lambda>t. Num (hourly_mean rtm sp t)) ?keys) = Inr (map ?spread ?keys)"
    by (intro series_sub_map) simp
  have "dart_spread dam rtm sp =
      Inr (zip (map (\<lambda>t. t) ?keys) (zip (map ?price ?keys) (zip (map (\<lambda>t. Num (hourly_mean rtm sp t)) ?keys) (map ?spread ?keys))))"
    unfolding dart_spread_def
    using dcols rcols by (simp add: select_eq_ok g keys means r p s del: map_map)
  also have "\<dots> = Inr (map (\<lambda>t. (t, ?price t, Num (hourly_mean rtm sp t), ?spread t)) ?keys)"
    by (simp only: zip_maps)
  also have "\<dots> = Inr (map (spread_row dam rtm sp) ?keys)"
    by (simp add: spread_row_def split: option.splits)
  finally show ?thesis .
qed

lemma fst_spread_row [simp]: "fst (spread_row dam rtm sp t) = t"
  by (simp add: spread_row_def split: option.splits)

lemma set_rtm_hours:
  "set (rtm_hours rtm sp) = (\<lambda>r. r ''datetime'') ` set (rows_of rtm ''settlementPoint'' sp)"
  by (simp add: rtm_hours_def)

lemma distinct_rtm_hours: "distinct (rtm_hours rtm sp)"
  by (simp add: rtm_hours_def)

text \<open>
  C3, amended. For a fixed settlement point whose real-time rows carry timestamps and
  numeric prices, and whose day-ahead rows carry numeric prices at distinct timestamps,
  the computation returns one row per distinct timestamp of the real-time series: the
  real-time rows are first reduced to their mean per timestamp, and the spread at a
  timestamp is the day-ahead price there minus that mean. A timestamp that only the
  day-ahead series has is dropped. A timestamp that only the real-time series has is
  kept, with a missing day-ahead price and a missing spread.
\<close>

theorem dart_spread_alignment:
  assumes dcols: "''SettlementPoint'' \<in> set (columns dam)" "''datetime'' \<in> set (columns dam)"
      "''SettlementPointPrice'' \<in> set (columns dam)"
    and rcols: "''settlementPoint'' \<in> set (columns rtm)" "''datetime'' \<in> set (columns rtm)"
      "''settlementPointPrice'' \<in> set (columns rtm)"
    and rok: "\<forall>r\<in>set (rows_of rtm ''settlementPoint'' sp).
                 is_stamp (r ''datetime'') \<and> is_num (r ''settlementPointPrice'')"
    and dok: "\<forall>r\<in>set (rows_of dam ''SettlementPoint'' sp). is_num (r ''SettlementPointPrice'')"
    and ddist: "distinct (map (\<lambda>r. r ''datetime'') (rows_of dam ''SettlementPoint'' sp))"
  shows "\<exists>out. dart_spread dam rtm sp = Inr out \<and>
     distinct (map fst out) \<and>
     set (map fst out) = (\<lambda>r. r ''datetime'') ` set (rows_of rtm ''settlementPoint'' sp) \<and>
     (\<forall>(t, d, m, s)\<in>set out.
         m = Num (hourly_mean rtm sp t) \<and>
         (case dam_at dam sp t of
            Some p \<Rightarrow> d = p \<and> s = Num (num p - hourly_mean rtm sp t)
          | None \<Rightarrow> d = NaN \<and> s = NaN))"
proof -
  let ?out = "map (spread_row dam rtm sp) (rtm_hours rtm sp)"
  have run: "dart_spread dam rtm sp = Inr ?out"
    using assms by (rule dart_spread_eq)
  have fsts: "map fst ?out = rtm_hours rtm sp"
    by (simp add: o_def)
  have vals: "\<forall>(t, d, m, s)\<in>set ?out.
         m = Num (hourly_mean rtm sp t) \<and>
         (case dam_at dam sp t of
            Some p \<Rightarrow> d = p \<and> s = Num (num p - hourly_mean rtm sp t)
          | None \<Rightarrow> d = NaN \<and> s = NaN)"
    by (auto simp: spread_row_def split: option.splits)
  have dist: "distinct (map fst ?out)"
    unfolding fsts by (rule distinct_rtm_hours)
  have sets: "set (map fst ?out) = (\<lambda>r. r ''datetime'') ` set (rows_of rtm ''settlementPoint'' sp)"
    unfolding fsts by (rule set_rtm_hours)
  show ?thesis
    by (rule exI [of _ ?out]) (intro conjI run dist sets vals)
qed

lemma ex_rows:
  "rows_of ex_rtm ''settlementPoint'' ''LZ_NORTH'' =
     [rtm_row ''LZ_NORTH'' (Stamp ex_day 7 0) (Num 25),
      rtm_row ''LZ_NORTH'' (Stamp ex_day 4 0) (Num 28),
      rtm_row ''LZ_NORTH'' (Stamp ex_day 4 0) (Num 29),
      rtm_row ''LZ_NORTH'' (Stamp ex_day 4 0) (Num 33)]"
  "rows_of ex_dam ''SettlementPoint'' ''LZ_NORTH'' =
     [dam_row ''LZ_NORTH'' (Stamp ex_day 4 0) (Num 30),
      dam_row ''LZ_NORTH'' (Stamp ex_day 5 0) (Num 31)]"
  by (simp_all add: rows_of_def ex_rtm_def ex_dam_def rtm_row_def dam_row_def mk_row_def)

lemma ex_cells [simp]:
  "rtm_row sp t p ''datetime'' = t" "rtm_row sp t p ''settlementPointPrice'' = p"
  "dam_row sp t p ''datetime'' = t" "dam_row sp t p ''SettlementPointPrice'' = p"
  by (simp_all add: rtm_row_def dam_row_def mk_row_def)

lemma ex_hours: "rtm_hours ex_rtm ''LZ_NORTH'' = [Stamp ex_day 4 0, Stamp ex_day 7 0]"
  by (simp add: rtm_hours_def ex_rows ex_day_def)

lemma ex_means:
  "hourly_mean ex_rtm ''LZ_NORTH'' (Stamp ex_day 4 0) = 30"
  "hourly_mean ex_rtm ''LZ_NORTH'' (Stamp ex_day 7 0) = 25"
  by (simp_all add: hourly_mean_def ex_rows)

lemma ex_dam_at:
  "dam_at ex_dam ''LZ_NORTH'' (Stamp ex_day 4 0) = Some (Num 30)"
  "dam_at ex_dam ''LZ_NORTH'' (Stamp ex_day 7 0) = None"
  by (simp_all add: dam_at_def ex_rows)

lemma ex_assms:
  "''SettlementPoint'' \<in> set (columns ex_dam)" "''datetime'' \<in> set (columns ex_dam)"
  "''SettlementPointPrice'' \<in> set (columns ex_dam)"
  "''settlementPoint'' \<in> set (columns ex_rtm)" "''datetime'' \<in> set (columns ex_rtm)"
  "''settlementPointPrice'' \<in> set (columns ex_rtm)"
  "\<forall>r\<in>set (rows_of ex_rtm ''settlementPoint'' ''LZ_NORTH'').
                 is_stamp (r ''datetime'') \<and> is_num (r ''settlementPointPrice'')"
  "\<forall>r\<in>set (rows_of ex_dam ''SettlementPoint'' ''LZ_NORTH''). is_num (r ''SettlementPointPrice'')"
  "distinct (map (\<lambda>r. r ''datetime'') (rows_of ex_dam ''SettlementPoint'' ''LZ_NORTH''))"
  by (simp_all add: ex_rows is_stamp_def is_num_def) (simp_all add: ex_dam_def ex_rtm_def)

text \<open>
  C3, as stated, fails where it says that a timestamp present in only one series is
  dropped. Day-ahead prices at 04:00 (30) and 05:00, real-time prices at 04:00 (28, 29, 33)
  and 07:00: the mean at 04:00 is 30 and the spread 0, 05:00 is dropped, and 07:00, which
  only the real-time series has, stays in the spread with a missing value.
\<close>

theorem dart_spread_counterexample:
  "dart_spread ex_dam ex_rtm ''LZ_NORTH'' =
     Inr [(Stamp ex_day 4 0, Num 30, Num 30, Num 0), (Stamp ex_day 7 0, NaN, Num 25, NaN)]"
  unfolding dart_spread_eq [OF ex_assms] ex_hours
  by (simp add: spread_row_def ex_means ex_dam_at)

theorem dart_spread_alignment_witness:
  "\<exists>out. dart_spread ex_dam ex_rtm ''LZ_NORTH'' = Inr out \<and>
      (\<exists>d m s. (Stamp ex_day 4 0, d, m, s) \<in> set out) \<and>
      (\<forall>d m s. (Stamp ex_day 4 0, d, m, s) \<in> set out \<longrightarrow> d = Num 30 \<and> m = Num 30 \<and> s = Num 0)"
proof -
  from dart_spread_alignment [OF ex_assms]
  obtain out where run: "dart_spread ex_dam ex_rtm ''LZ_NORTH'' = Inr out"
    and ts: "set (map fst out) = (\<lambda>r. r ''datetime'') ` set (rows_of ex_rtm ''settlementPoint'' ''LZ_NORTH'')"
    and vals: "\<forall>(t, d, m, s)\<in>set out.
         m = Num (hourly_mean ex_rtm ''LZ_NORTH'' t) \<and>
         (case dam_at ex_dam ''LZ_NORTH'' t of
            Some p \<Rightarrow> d = p \<and> s = Num (num p - hourly_mean ex_rtm ''LZ_NORTH'' t)
          | None \<Rightarrow> d = NaN \<and> s = NaN)"
    by blast
  have "Stamp ex_day 4 0 \<in> set (map fst out)"
    unfolding ts by (simp add: ex_rows)
  then obtain x where x: "x \<in> set out" "fst x = Stamp ex_day 4 0"
    by auto
  obtain d0 m0 s0 where "x = (Stamp ex_day 4 0, d0, m0, s0)"
    using x(2) by (cases x) auto
  with x(1) have 1: "\<exists>d m s. (Stamp ex_day 4 0, d, m, s) \<in> set out"
    by blast
  have 2: "d = Num 30 \<and> m = Num 30 \<and> s = Num 0" if "(Stamp ex_day 4 0, d, m, s) \<in> set out" for d m s
  proof -
    from bspec [OF vals that] have "m = Num (hourly_mean ex_rtm ''LZ_NORTH'' (Stamp ex_day 4 0)) \<and>
         (case dam_at ex_dam ''LZ_NORTH'' (Stamp ex_day 4 0) of
            Some p \<Rightarrow> d = p \<and> s = Num (num p - hourly_mean ex_rtm ''LZ_NORTH'' (Stamp ex_day 4 0))
          | None \<Rightarrow> d = NaN \<and> s = NaN)"
      by simp
    then show ?thesis
      by (simp add: ex_means ex_dam_at)
  qed
  from run 1 2 show ?thesis by blast
qed

section \<open>Text and integers, back and forth\<close>


declare str_nat.simps [simp del]

lemma digit_table: "\<forall>n\<in>set [0..<10]. digit_val (digit_char n) = Some n"
  by (simp del: set_upt add: upt_rec digit_val_def digit_char_def)

lemma digit_val_digit_char: "n < 10 \<Longrightarrow> digit_val (digit_char n) = Some n"
  using digit_table by simp

lemma is_digit_digit_char: "n < 10 \<Longrightarrow> is_digit (digit_char n)"
  by (simp add: is_digit_def digit_val_digit_char)

lemma is_digit_not_special:
  "is_digit c \<Longrightarrow> c \<noteq> CHR '':'' \<and> c \<noteq> CHR ''-'' \<and> c \<noteq> CHR ''+'' \<and> c \<noteq> CHR '' ''
      \<and> c \<noteq> CHR ''_'' \<and> c \<noteq> CHR ''/'' \<and> \<not> is_space c"
  by (auto simp: is_digit_def digit_val_def is_space_def)

lemma digits_val_append:
  "digits_val acc (xs @ ys) =
     (case digits_val acc xs of None \<Rightarrow> None | Some v \<Rightarrow> digits_val v ys)"
  by (induction xs arbitrary: acc) (simp_all split: option.splits)

lemma digits_val_str_nat: "digits_val 0 (str_nat n) = Some n"
proof (induction n rule: str_nat.induct)
  case (1 n)
  show ?case
  proof (cases "n < 10")
    case True
    then show ?thesis
      by (subst str_nat.simps) (simp add: digit_val_digit_char)
  next
    case False
    then have IH: "digits_val 0 (str_nat (n div 10)) = Some (n div 10)"
      using 1 by simp
    have "digit_val (digit_char (n mod 10)) = Some (n mod 10)"
      by (simp add: digit_val_digit_char)
    with False IH show ?thesis
      by (subst str_nat.simps) (simp add: digits_val_append)
  qed
qed

lemma digits_val_zeros: "digits_val 0 (replicate z CHR ''0'' @ s) = digits_val 0 s"
  by (induction z) (simp_all add: digit_val_def)

lemma str_nat_nonempty: "str_nat n \<noteq> []"
  by (subst str_nat.simps) simp

lemma str_nat_digits: "\<forall>c\<in>set (str_nat n). is_digit c"
proof (induction n rule: str_nat.induct)
  case (1 n)
  show ?case
  proof (cases "n < 10")
    case True
    then show ?thesis
      by (subst str_nat.simps) (simp add: is_digit_digit_char)
  next
    case False
    with 1 show ?thesis
      by (subst str_nat.simps) (simp add: is_digit_digit_char)
  qed
qed

lemma is_digit_zero: "is_digit CHR ''0''"
  by (simp add: is_digit_def digit_val_def)

lemma zfill_digits: "\<forall>c\<in>set (zfill k (str_nat n)). is_digit c"
  using str_nat_digits [of n] by (auto simp: zfill_def is_digit_zero)

lemma parse_nat_zeros_str_nat: "parse_nat (replicate z CHR ''0'' @ str_nat n) = Some n"
  by (simp add: parse_nat_def str_nat_nonempty digits_val_zeros digits_val_str_nat)

lemma parse_nat_str_nat: "parse_nat (str_nat n) = Some n"
  using parse_nat_zeros_str_nat [of 0 n] by simp

lemma parse_nat_zfill: "parse_nat (zfill k (str_nat n)) = Some n"
  by (simp add: zfill_def parse_nat_zeros_str_nat)

lemma split_on_none: "sep \<notin> set xs \<Longrightarrow> split_on sep xs = [xs]"
  by (induction xs) auto

lemma split_on_first:
  "sep \<notin> set xs \<Longrightarrow> split_on sep (xs @ sep # ys) = xs # split_on sep ys"
  by (induction xs) auto

lemma strip_no_space: "\<forall>c\<in>set s. \<not> is_space c \<Longrightarrow> strip s = s"
proof -
  assume a: "\<forall>c\<in>set s. \<not> is_space c"
  then have "dropWhile is_space s = s"
    by (cases s) simp_all
  moreover from a have "\<forall>c\<in>set (rev s). \<not> is_space c"
    by simp
  then have "dropWhile is_space (rev s) = rev s"
    by (cases "rev s") simp_all
  ultimately show ?thesis
    by (simp add: strip_def)
qed

lemma py_int_digits:
  assumes "\<forall>c\<in>set ds. is_digit c" "parse_nat ds = Some n"
  shows "py_int ds = Inr (int n)"
proof -
  have st: "strip ds = ds"
    using assms(1) by (intro strip_no_space) (simp add: is_digit_not_special)
  have us: "CHR ''_'' \<notin> set ds"
    using assms(1) is_digit_not_special by blast
  show ?thesis
  proof (cases ds)
    case Nil
    with assms(2) show ?thesis by (simp add: parse_nat_def)
  next
    case (Cons c cs)
    then have "is_digit c" using assms(1) by simp
    then have "c \<noteq> CHR ''-''" "c \<noteq> CHR ''+''"
      using is_digit_not_special by blast+
    moreover have "strip (c # cs) = c # cs"
      using st Cons by simp
    ultimately show ?thesis
      using us assms(2) Cons by (simp add: py_int_def)
  qed
qed

lemma py_int_neg_digits:
  assumes "\<forall>c\<in>set ds. is_digit c" "parse_nat ds = Some n"
  shows "py_int (CHR ''-'' # ds) = Inr (- int n)"
proof -
  have "\<not> is_space CHR ''-''"
    by (simp add: is_space_def)
  moreover have "\<forall>c\<in>set ds. \<not> is_space c"
    using assms(1) is_digit_not_special by blast
  ultimately have "\<forall>c\<in>set (CHR ''-'' # ds). \<not> is_space c"
    by simp
  then have st: "strip (CHR ''-'' # ds) = CHR ''-'' # ds"
    by (rule strip_no_space)
  have us: "CHR ''_'' \<notin> set ds"
    using assms(1) is_digit_not_special by blast
  show ?thesis
    using us assms(2) by (simp add: py_int_def st)
qed

lemma py_int_str_int: "py_int (str_int i) = Inr i"
proof (cases "i < 0")
  case True
  then show ?thesis
    using py_int_neg_digits [OF str_nat_digits parse_nat_str_nat, of "nat (- i)"]
    by (simp add: str_int_def)
next
  case False
  then show ?thesis
    using py_int_digits [OF str_nat_digits parse_nat_str_nat, of "nat i"]
    by (simp add: str_int_def)
qed

lemma colon_str_nat: "CHR '':'' \<notin> set (str_nat n)"
  using str_nat_digits [of n] is_digit_not_special by blast

lemma colon_str_int: "CHR '':'' \<notin> set (str_int i)"
  by (simp add: str_int_def colon_str_nat)

lemma hour_ending_cell_int: "hour_ending_cell (Intg i) = Inr (Intg i)"
  by (simp add: split_on_none colon_str_int py_int_str_int)

lemma hour_ending_cell_clock:
  assumes "rest = [] \<or> hd rest = CHR '':''"
  shows "hour_ending_cell (Str (replicate z CHR ''0'' @ str_nat n @ rest)) = Inr (Intg (int n))"
proof -
  let ?lead = "replicate z CHR ''0'' @ str_nat n"
  have dg: "\<forall>c\<in>set ?lead. is_digit c"
    using str_nat_digits [of n] by (auto simp: is_digit_zero)
  then have nc: "CHR '':'' \<notin> set ?lead"
    using is_digit_not_special by blast
  have "hd (split_on CHR '':'' (?lead @ rest)) = ?lead"
  proof (cases rest)
    case Nil
    then show ?thesis using nc by (simp add: split_on_none del: set_append)
  next
    case (Cons c cs)
    with assms have "c = CHR '':''" by simp
    then show ?thesis
      using split_on_first [OF nc, of cs] Cons by simp
  qed
  moreover have "py_int ?lead = Inr (int n)"
    using dg by (rule py_int_digits) (rule parse_nat_zeros_str_nat)
  ultimately show ?thesis
    by simp
qed


lemma length_str_nat_1: "n < 10 \<Longrightarrow> length (str_nat n) = 1"
  by (subst str_nat.simps) simp

lemma length_str_nat_2: "n < 100 \<Longrightarrow> length (str_nat n) \<le> 2"
  by (subst str_nat.simps) (simp add: length_str_nat_1)

lemma length_str_nat_3: "n < 1000 \<Longrightarrow> length (str_nat n) \<le> 3"
  using length_str_nat_2 [of "n div 10"] by (subst str_nat.simps) simp

lemma length_str_nat_4: "n < 10000 \<Longrightarrow> length (str_nat n) \<le> 4"
  using length_str_nat_3 [of "n div 10"] by (subst str_nat.simps) simp

lemma length_zfill: "length s \<le> k \<Longrightarrow> length (zfill k s) = k"
  by (simp add: zfill_def)

lemma zfill_no: "c \<noteq> CHR ''0'' \<Longrightarrow> c \<notin> set s \<Longrightarrow> c \<notin> set (zfill k s)"
  by (simp add: zfill_def)

lemma hyphen_zfill: "CHR ''-'' \<notin> set (zfill k (str_nat n))"
  using zfill_digits [of k n] is_digit_not_special by blast

lemma space_zfill: "CHR '' '' \<notin> set (zfill k (str_nat n))"
  using zfill_digits [of k n] is_digit_not_special by blast

lemma parse_date_date_str:
  assumes "valid_date D"
  shows "parse_date (date_str D) = Inr D"
proof -
  let ?y = "zfill 4 (str_nat (year D))" and ?m = "zfill 2 (str_nat (month D))"
    and ?d = "zfill 2 (str_nat (day D))"
  have sp: "split_on CHR ''-'' (date_str D) = [?y, ?m, ?d]"
    using split_on_first [OF hyphen_zfill, of 4 "year D" "?m @ ''-'' @ ?d"]
      split_on_first [OF hyphen_zfill, of 2 "month D" ?d]
      split_on_none [OF hyphen_zfill, of 2 "day D"]
    by (simp add: date_str_def)
  have "year D < 10000"
    using assms by (simp add: valid_date_def)
  then have len: "length ?y = 4"
    by (intro length_zfill length_str_nat_4)
  have "valid_ymd (year D) (month D) (day D)"
    using assms by (simp add: valid_date_def)
  then show ?thesis
    by (simp add: parse_date_def sp parse_nat_zfill len)
qed

lemma space_date_str: "CHR '' '' \<notin> set (date_str D)"
  by (simp add: date_str_def space_zfill)

lemma to_datetime_text:
  assumes "valid_date D" "h < 24"
  shows "to_datetime (date_str D @ '' '' @ str_nat h @ '':00'') = Inr (Stamp D h 0)"
proof -
  have nsp: "CHR '' '' \<notin> set (str_nat h @ '':00'')"
    using str_nat_digits [of h] is_digit_not_special by auto
  have sp: "split_on CHR '' '' (date_str D @ CHR '' '' # str_nat h @ '':00'')
      = [date_str D, str_nat h @ '':00'']"
    using split_on_first [OF space_date_str, of D "str_nat h @ '':00''"] split_on_none [OF nsp]
    by simp
  have "split_on CHR '':'' (str_nat h @ '':00'') = [str_nat h, ''00'']"
    using split_on_first [OF colon_str_nat, of h "''00''"] by simp
  moreover have "parse_nat ''00'' = Some 0"
    by (simp add: parse_nat_def digit_val_def)
  ultimately have "parse_clock (str_nat h @ '':00'') = Inr (h, 0)"
    using assms(2) by (simp add: parse_clock_def parse_nat_str_nat)
  then show ?thesis
    using assms(1) by (simp add: to_datetime_def sp parse_date_date_str)
qed

lemma datetime_cell_hour:
  assumes "valid_date D" "1 \<le> H" "H \<le> 24"
  shows "datetime_cell (Stamp D 0 0) (Intg H) = Inr (Stamp D (nat (H - 1)) 0)"
proof -
  have "str_int (H - 1) = str_nat (nat (H - 1))"
    using assms(2) by (simp add: str_int_def)
  moreover have "nat (H - 1) < 24"
    using assms(2,3) by simp
  ultimately show ?thesis
    using to_datetime_text [OF assms(1), of "nat (H - 1)"] by (simp add: datetime_cell_def)
qed

section \<open>Hour-ending to canonical timestamp\<close>

text \<open>
  C1. For a valid date \<open>D\<close> (a date column holds it as the timestamp of its midnight) and
  an hour-ending \<open>H\<close> from 1 to 24, given as the integer \<open>H\<close> or as a text whose part
  before the first colon is the decimal numeral of \<open>H\<close>, with or without leading zeros
  (\<open>5\<close>, \<open>05:00\<close>, \<open>24:00\<close>): the hour column is reduced to the integer \<open>H\<close>, and the
  timestamp built from the row is \<open>(H-1):00\<close> on the same date \<open>D\<close>. Hour-ending 24 gives
  23:00 on \<open>D\<close> itself (\<open>canonical_timestamp_witness\<close>). The last conjunct is the
  real-time table, whose integer hour column is used as it is.
\<close>

theorem canonical_timestamp:
  assumes "valid_date D" and "1 \<le> H" and "H \<le> 24"
    and "hour_cell = Intg H \<or>
         (\<exists>z rest. hour_cell = Str (replicate z CHR ''0'' @ str_int H @ rest)
                     \<and> (rest = [] \<or> hd rest = CHR '':''))"
  shows "hour_ending_cell hour_cell = Inr (Intg H) \<and>
         normalize_row (Stamp D 0 0) hour_cell = Inr (Stamp D (nat (H - 1)) 0) \<and>
         datetime_cell (Stamp D 0 0) (Intg H) = Inr (Stamp D (nat (H - 1)) 0)"
proof -
  have he: "hour_ending_cell hour_cell = Inr (Intg H)"
    using assms(4)
  proof
    assume "hour_cell = Intg H"
    then show ?thesis by (simp only: hour_ending_cell_int)
  next
    assume "\<exists>z rest. hour_cell = Str (replicate z CHR ''0'' @ str_int H @ rest)
                     \<and> (rest = [] \<or> hd rest = CHR '':'')"
    then obtain z rest where c: "hour_cell = Str (replicate z CHR ''0'' @ str_int H @ rest)"
      and r: "rest = [] \<or> hd rest = CHR '':''"
      by blast
    have "str_int H = str_nat (nat H)"
      using assms(2) by (simp add: str_int_def)
    with c hour_ending_cell_clock [OF r, of z "nat H"] assms(2) show ?thesis
      by simp
  qed
  moreover note dt = datetime_cell_hour [OF assms(1-3)]
  ultimately show ?thesis
    by (simp add: normalize_row_def)
qed

lemma ex_day_valid: "valid_date ex_day"
  by (simp add: valid_date_def valid_ymd_def days_in_month_def ex_day_def)

theorem canonical_timestamp_witness:
  "normalize_row (Stamp ex_day 0 0) (Str ''24:00'') = Inr (Stamp ex_day 23 0) \<and>
   normalize_row (Stamp ex_day 0 0) (Str ''01:00'') = Inr (Stamp ex_day 0 0) \<and>
   normalize_row (Stamp ex_day 0 0) (Intg 24) = Inr (Stamp ex_day 23 0) \<and>
   normalize_row (Stamp ex_day 0 0) (Intg 1) = Inr (Stamp ex_day 0 0)"
proof -
  have s24: "str_int 24 = ''24''" and s1: "str_int 1 = ''1''"
    by (simp_all add: str_int_def str_nat.simps digit_char_def)
  have a: "Str ''24:00'' = Intg 24 \<or>
         (\<exists>z rest. Str ''24:00'' = Str (replicate z CHR ''0'' @ str_int 24 @ rest)
                     \<and> (rest = [] \<or> hd rest = CHR '':''))"
    by (rule disjI2, rule exI [of _ 0], rule exI [of _ "'':00''"]) (simp add: s24)
  have b: "Str ''01:00'' = Intg 1 \<or>
         (\<exists>z rest. Str ''01:00'' = Str (replicate z CHR ''0'' @ str_int 1 @ rest)
                     \<and> (rest = [] \<or> hd rest = CHR '':''))"
    by (rule disjI2, rule exI [of _ 1], rule exI [of _ "'':00''"]) (simp add: s1)
  have c: "Intg 24 = Intg 24 \<or>
         (\<exists>z rest. Intg 24 = Str (replicate z CHR ''0'' @ str_int 24 @ rest)
                     \<and> (rest = [] \<or> hd rest = CHR '':''))"
    and d: "Intg 1 = Intg 1 \<or>
         (\<exists>z rest. Intg 1 = Str (replicate z CHR ''0'' @ str_int 1 @ rest)
                     \<and> (rest = [] \<or> hd rest = CHR '':''))"
    by simp_all
  show ?thesis
    using canonical_timestamp [OF ex_day_valid _ _ a] canonical_timestamp [OF ex_day_valid _ _ b]
      canonical_timestamp [OF ex_day_valid _ _ c] canonical_timestamp [OF ex_day_valid _ _ d]
    by simp
qed

section \<open>Archives with no entry, one entry, several entries\<close>

lemma extractall_fails_iff:
  "isl (extractall dir members fs) \<longleftrightarrow> (\<exists>m\<in>set members. \<not> extracts m)"
proof (induction members arbitrary: fs)
  case Nil
  show ?case by simp
next
  case (Cons m members)
  obtain name content where m: "m = (name, content)"
    by (cases m)
  show ?case
  proof (cases "is_dir name")
    case True
    then show ?thesis
      by (simp add: m extracts_def Cons.IH)
  next
    case False
    show ?thesis
    proof (cases content)
      case (Inl e)
      with False show ?thesis
        by (simp add: m extracts_def)
    next
      case (Inr b)
      with False show ?thesis
        by (simp add: m extracts_def Cons.IH)
    qed
  qed
qed

lemma extractall_written:
  "\<forall>m\<in>set members. extracts m \<Longrightarrow>
     extractall dir members fs =
       Inr (\<lambda>p. case written dir members p of Some b \<Rightarrow> Some b | None \<Rightarrow> fs p)"
proof (induction members arbitrary: fs)
  case Nil
  show ?case by simp
next
  case (Cons m members)
  obtain name content where m: "m = (name, content)"
    by (cases m)
  from Cons.prems have rest: "\<forall>m\<in>set members. extracts m" and this_one: "extracts (name, content)"
    by (simp_all add: m)
  show ?case
  proof (cases "is_dir name")
    case True
    have eq: "(\<lambda>p. case written dir members p of Some b \<Rightarrow> Some b | None \<Rightarrow> fs p)
        = (\<lambda>p. case written dir ((name, content) # members) p of Some b \<Rightarrow> Some b | None \<Rightarrow> fs p)"
      using True by (auto split: option.splits sum.splits)
    have "extractall dir ((name, content) # members) fs = extractall dir members fs"
      using True by simp
    also have "\<dots> = Inr (\<lambda>p. case written dir members p of Some b \<Rightarrow> Some b | None \<Rightarrow> fs p)"
      by (rule Cons.IH [OF rest])
    finally show ?thesis
      by (simp only: eq m)
  next
    case False
    with this_one obtain b where b: "content = Inr b" and a: "arcname name \<noteq> []"
      by (cases content) (auto simp: extracts_def)
    have eq: "(\<lambda>p. case written dir members p of
                  Some b \<Rightarrow> Some b | None \<Rightarrow> (fs(targetpath dir name \<mapsto> b)) p)
        = (\<lambda>p. case written dir ((name, content) # members) p of Some b \<Rightarrow> Some b | None \<Rightarrow> fs p)"
      using False b by (auto split: option.splits)
    have "extractall dir ((name, content) # members) fs
        = extractall dir members (fs(targetpath dir name \<mapsto> b))"
      using False a b by simp
    also have "\<dots> = Inr (\<lambda>p. case written dir members p of
                  Some b \<Rightarrow> Some b | None \<Rightarrow> (fs(targetpath dir name \<mapsto> b)) p)"
      by (rule Cons.IH [OF rest])
    finally show ?thesis
      by (simp only: eq m)
  qed
qed

lemma plain_name_arcname: "plain_name name \<Longrightarrow> arcname name = name \<and> \<not> is_dir name"
proof -
  assume p: "plain_name name"
  then have "split_on CHR ''/'' name = [name]"
    by (intro split_on_none) (simp add: plain_name_def)
  moreover have "\<not> is_dir name"
  proof
    assume "is_dir name"
    then have "name \<noteq> []" "last name = CHR ''/''"
      by (simp_all add: is_dir_def)
    then have "CHR ''/'' \<in> set name"
      using last_in_set [of name] by simp
    with p show False
      by (simp add: plain_name_def)
  qed
  ultimately show ?thesis
    using p by (simp add: arcname_def plain_name_def)
qed

text \<open>
  C5, as stated, fails for an archive with more than one entry: nothing is raised, and the
  first entry listed is the one returned.
\<close>

theorem two_entries_counterexample:
  "returned_path (download_and_extract_zip2
       (Inr (Archive [(''report.csv'', Inr ''a,b''), (''readme.txt'', Inr ''hello'')]))
       ''production'' Map.empty)
     = Inr ''production/report.csv'' \<and>
   returned_path (download_and_extract_zip1
       (Inr (Archive [(''report.csv'', Inr ''a,b''), (''readme.txt'', Inr ''hello'')]))
       ''production'' Map.empty)
     = Inr ''report.csv''"
  by code_simp

text \<open>
  C5, amended. For a fetched resource that is an archive:
  the call fails exactly when the archive has no member (\<open>IndexError\<close> at \<open>names[0]\<close>) or
  has a member that cannot be extracted; more than one member is no failure.
  When every member extracts, every member is extracted: each path holds the bytes of the
  last file member whose target it is, and is untouched if it is no member's target; and
  the first member listed is the one returned, its name in phase 1, the target directory
  joined with its name in phase 2, whatever follows it. If that first member is a file
  with a plain name (no directory part) which no later member overwrites, then the path
  that phase 2 returns, and the name that phase 1 returns once joined to the directory,
  open the file that holds its bytes.
\<close>

theorem archive_first_entry:
  "(isl (download_and_extract_zip1 (Inr (Archive members)) dir fs)
      \<longleftrightarrow> members = [] \<or> (\<exists>m\<in>set members. \<not> extracts m)) \<and>
   (isl (download_and_extract_zip2 (Inr (Archive members)) dir fs)
      \<longleftrightarrow> members = [] \<or> (\<exists>m\<in>set members. \<not> extracts m)) \<and>
   download_and_extract_zip1 (Inr (Archive [])) dir fs = Inl IndexError \<and>
   download_and_extract_zip2 (Inr (Archive [])) dir fs = Inl IndexError \<and>
   ((\<forall>m\<in>set members. extracts m) \<and> members \<noteq> [] \<longrightarrow>
      returned_path (download_and_extract_zip1 (Inr (Archive members)) dir fs)
        = Inr (fst (hd members)) \<and>
      returned_path (download_and_extract_zip2 (Inr (Archive members)) dir fs)
        = Inr (os_path_join dir (fst (hd members))) \<and>
      files_after (download_and_extract_zip1 (Inr (Archive members)) dir fs)
        = Some (\<lambda>p. case written dir members p of Some b \<Rightarrow> Some b | None \<Rightarrow> fs p) \<and>
      files_after (download_and_extract_zip2 (Inr (Archive members)) dir fs)
        = Some (\<lambda>p. case written dir members p of Some b \<Rightarrow> Some b | None \<Rightarrow> fs p)) \<and>
   ((\<forall>m\<in>set others. extracts m) \<and> plain_name name
      \<and> written dir others (targetpath dir name) = None \<longrightarrow>
      file_at_returned_path
          (download_and_extract_zip2 (Inr (Archive ((name, Inr b) # others))) dir fs) = Some b \<and>
      file_at_joined_name dir
          (download_and_extract_zip1 (Inr (Archive ((name, Inr b) # others))) dir fs) = Some b)"
proof -
  have fails: "isl (extractall dir members fs) \<longleftrightarrow> (\<exists>m\<in>set members. \<not> extracts m)"
    by (rule extractall_fails_iff)
  have 1: "isl (download_and_extract_zip1 (Inr (Archive members)) dir fs)
      \<longleftrightarrow> members = [] \<or> (\<exists>m\<in>set members. \<not> extracts m)"
    using fails
    by (cases "extractall dir members fs"; cases members)
      (auto simp: download_and_extract_zip1_def namelist_def first_name_def)
  have 2: "isl (download_and_extract_zip2 (Inr (Archive members)) dir fs)
      \<longleftrightarrow> members = [] \<or> (\<exists>m\<in>set members. \<not> extracts m)"
    using fails
    by (cases "extractall dir members fs"; cases members)
      (auto simp: download_and_extract_zip2_def namelist_def first_name_def)
  have 3: "download_and_extract_zip1 (Inr (Archive [])) dir fs = Inl IndexError"
    "download_and_extract_zip2 (Inr (Archive [])) dir fs = Inl IndexError"
    by (simp_all add: download_and_extract_zip1_def download_and_extract_zip2_def
        namelist_def first_name_def)
  have 4: "returned_path (download_and_extract_zip1 (Inr (Archive members)) dir fs)
        = Inr (fst (hd members)) \<and>
      returned_path (download_and_extract_zip2 (Inr (Archive members)) dir fs)
        = Inr (os_path_join dir (fst (hd members))) \<and>
      files_after (download_and_extract_zip1 (Inr (Archive members)) dir fs)
        = Some (\<lambda>p. case written dir members p of Some b \<Rightarrow> Some b | None \<Rightarrow> fs p) \<and>
      files_after (download_and_extract_zip2 (Inr (Archive members)) dir fs)
        = Some (\<lambda>p. case written dir members p of Some b \<Rightarrow> Some b | None \<Rightarrow> fs p)"
    if ok: "\<forall>m\<in>set members. extracts m" and ne: "members \<noteq> []"
  proof -
    obtain m ms where ms: "members = m # ms"
      using ne by (cases members) auto
    show ?thesis
      unfolding download_and_extract_zip1_def download_and_extract_zip2_def
      by (simp add: extractall_written [OF ok] returned_path_def files_after_def
          namelist_def first_name_def) (simp add: ms)
  qed
  have 5: "file_at_returned_path
          (download_and_extract_zip2 (Inr (Archive ((name, Inr b) # others))) dir fs) = Some b \<and>
      file_at_joined_name dir
          (download_and_extract_zip1 (Inr (Archive ((name, Inr b) # others))) dir fs) = Some b"
    if ok: "\<forall>m\<in>set others. extracts m" and pl: "plain_name name"
      and last_one: "written dir others (targetpath dir name) = None"
  proof -
    from plain_name_arcname [OF pl] have a: "arcname name = name" and d: "\<not> is_dir name"
      by simp_all
    have "name \<noteq> []"
      using pl by (simp add: plain_name_def)
    with a d have "extracts (name, Inr b)"
      by (simp add: extracts_def)
    with ok have all: "\<forall>m\<in>set ((name, Inr b) # others). extracts m"
      by simp
    have t: "normpath (os_path_join dir name) = targetpath dir name"
      by (simp add: targetpath_def a)
    have ex: "extractall dir ((name, Inr b) # others) fs =
        Inr (\<lambda>p. case written dir ((name, Inr b) # others) p of
                   Some b \<Rightarrow> Some b | None \<Rightarrow> fs p)"
      by (rule extractall_written [OF all])
    have w: "written dir ((name, Inr b) # others) (targetpath dir name) = Some b"
      using last_one d by simp
    show ?thesis
      unfolding download_and_extract_zip1_def download_and_extract_zip2_def
      by (simp add: ex file_at_returned_path_def file_at_joined_name_def
          namelist_def first_name_def open_file_def t w del: extractall.simps written.simps)
  qed
  from 1 2 3 4 5 show ?thesis
    by blast
qed

lemma ex_members_extract:
  "\<forall>m\<in>set [(''readme.txt'', Inr ''hello'')]. extracts m" "plain_name ''report.csv''"
  "written ''production'' [(''readme.txt'', Inr ''hello'')] (targetpath ''production'' ''report.csv'') = None"
  by code_simp+

theorem archive_first_entry_witness:
  "file_at_returned_path
      (download_and_extract_zip2
         (Inr (Archive [(''report.csv'', Inr ''a,b''), (''readme.txt'', Inr ''hello'')]))
         ''production'' Map.empty) = Some ''a,b'' \<and>
   file_at_joined_name ''production''
      (download_and_extract_zip1
         (Inr (Archive [(''report.csv'', Inr ''a,b''), (''readme.txt'', Inr ''hello'')]))
         ''production'' Map.empty) = Some ''a,b''"
  using archive_first_entry [of "[(''report.csv'', Inr ''a,b''), (''readme.txt'', Inr ''hello'')]"
      "''production''" Map.empty "[(''readme.txt'', Inr ''hello'')]" "''report.csv''" "''a,b''"]
    ex_members_extract
  by blast

text \<open>
  A member name with a directory part that the extraction drops: the file is written
  below the target directory, and the path that phase 2 returns does not lead to it.
\<close>

lemma sanitised_name_example:
  "file_at_returned_path
      (download_and_extract_zip2 (Inr (Archive [(''../x.csv'', Inr ''abc'')]))
         ''production'' Map.empty) = None \<and>
   map_option (\<lambda>fs. fs ''production/x.csv'')
      (files_after (download_and_extract_zip2 (Inr (Archive [(''../x.csv'', Inr ''abc'')]))
         ''production'' Map.empty)) = Some (Some ''abc'')"
  by code_simp

end
